theory Spec2Isabelle
  imports Complex_Main
begin

section \<open>Python values\<close>

text \<open>
  A Python float is modelled by the real number it denotes, or by \<open>NaN\<close>. Infinities and
  rounding are not modelled. The comparison operators follow IEEE 754: every ordered
  comparison with \<open>NaN\<close> is false, and \<open>NaN == NaN\<close> is false.
\<close>

datatype pyfloat = Fl real | NaN

fun feq :: "pyfloat \<Rightarrow> pyfloat \<Rightarrow> bool" where
  "feq (Fl a) (Fl b) = (a = b)"
| "feq _ _ = False"

fun flt :: "pyfloat \<Rightarrow> pyfloat \<Rightarrow> bool" where
  "flt (Fl a) (Fl b) = (a < b)"
| "flt _ _ = False"

fun fle :: "pyfloat \<Rightarrow> pyfloat \<Rightarrow> bool" where
  "fle (Fl a) (Fl b) = (a \<le> b)"
| "fle _ _ = False"

fun fadd :: "pyfloat \<Rightarrow> pyfloat \<Rightarrow> pyfloat" where
  "fadd (Fl a) (Fl b) = Fl (a + b)"
| "fadd _ _ = NaN"

fun fsub :: "pyfloat \<Rightarrow> pyfloat \<Rightarrow> pyfloat" where
  "fsub (Fl a) (Fl b) = Fl (a - b)"
| "fsub _ _ = NaN"

fun fmul :: "pyfloat \<Rightarrow> pyfloat \<Rightarrow> pyfloat" where
  "fmul (Fl a) (Fl b) = Fl (a * b)"
| "fmul _ _ = NaN"

fun fabs :: "pyfloat \<Rightarrow> pyfloat" where
  "fabs (Fl a) = Fl \<bar>a\<bar>"
| "fabs NaN = NaN"

fun is_nan :: "pyfloat \<Rightarrow> bool" where
  "is_nan NaN = True"
| "is_nan (Fl _) = False"

fun the_real :: "pyfloat \<Rightarrow> real" where
  "the_real (Fl a) = a"
| "the_real NaN = 0"

text \<open>
  An exception carries its class name and the text \<open>str(e)\<close> gives. \<open>Exn\<close> is an
  exception whose class derives from Python's \<open>Exception\<close>, the ones a handler
  \<open>except Exception\<close> catches; \<open>BaseExn\<close> is one whose class does not (\<open>SystemExit\<close>,
  \<open>KeyboardInterrupt\<close>, \<open>GeneratorExit\<close>). A call either returns, raises, or never
  returns (\<open>Hang\<close>).
\<close>

datatype exn =
    is_Exception: Exn (exn_class: string) (str: string)
  | BaseExn (exn_class: string) (str: string)

datatype 'a outcome = Return 'a | Raise exn | Hang

definition bind :: "'a outcome \<Rightarrow> ('a \<Rightarrow> 'b outcome) \<Rightarrow> 'b outcome" where
  "bind m f = (case m of Return x \<Rightarrow> f x | Raise e \<Rightarrow> Raise e | Hang \<Rightarrow> Hang)"

section \<open>benchmark.py: formatting a list of timings\<close>

text \<open>
  \<open>statistics.mean\<close> and \<open>statistics.stdev\<close> of the Python standard library: the mean
  raises \<open>StatisticsError\<close> on no data, the sample standard deviation on fewer than two
  data points; a \<open>NaN\<close> among the data makes the result \<open>NaN\<close>.
\<close>

definition statistics_mean :: "pyfloat list \<Rightarrow> pyfloat outcome" where
  "statistics_mean xs =
     (if xs = [] then Raise (Exn ''StatisticsError'' ''mean requires at least one data point'')
      else if \<exists>x \<in> set xs. is_nan x then Return NaN
      else Return (Fl (sum_list (map the_real xs) / real (length xs))))"

definition statistics_stdev :: "pyfloat list \<Rightarrow> pyfloat outcome" where
  "statistics_stdev xs =
     (if length xs < 2
      then Raise (Exn ''StatisticsError'' ''stdev requires at least two data points'')
      else if \<exists>x \<in> set xs. is_nan x then Return NaN
      else let m = sum_list (map the_real xs) / real (length xs)
           in Return (Fl (sqrt (sum_list (map (\<lambda>x. (the_real x - m)\<^sup>2) xs)
                                 / real (length xs - 1)))))"

text \<open>
  \<open>_fmt(values)\<close>. The conversion \<open>%w.1f\<close> of Python's string formatting is the
  parameter \<open>ffmt\<close>, applied to the field width and the value.
  \<^verbatim>\<open>
  clean = [v for v in values if v == v]  # filter NaN
  if not clean:
      return "N/A"
  m = statistics.mean(clean) * 1000
  if len(clean) > 1:
      s = statistics.stdev(clean) * 1000
      return "%8.1f +/- %6.1f ms" % (m, s)
  return "%8.1f ms" % m
  \<close>
\<close>

definition fmt :: "(nat \<Rightarrow> pyfloat \<Rightarrow> string) \<Rightarrow> pyfloat list \<Rightarrow> string outcome" where
  "fmt ffmt values =
     (let clean = filter (\<lambda>v. feq v v) values in
      if clean = [] then Return ''N/A''
      else bind (statistics_mean clean) (\<lambda>mu.
        let m = fmul mu (Fl 1000) in
        if length clean > 1
        then bind (statistics_stdev clean) (\<lambda>sd.
          let s = fmul sd (Fl 1000) in
          Return (ffmt 8 m @ '' +/- '' @ ffmt 6 s @ '' ms''))
        else Return (ffmt 8 m @ '' ms'')))"

section \<open>numpy\<close>

text \<open>
  \<open>numpy.mean\<close> of a one-dimensional sequence: \<open>nan\<close> on an empty sequence (numpy warns
  and does not raise), \<open>nan\<close> when an entry is \<open>nan\<close>.
\<close>

definition np_mean :: "pyfloat list \<Rightarrow> pyfloat" where
  "np_mean xs =
     (if xs = [] then NaN
      else if \<exists>x \<in> set xs. is_nan x then NaN
      else Fl (sum_list (map the_real xs) / real (length xs)))"

text \<open>
  \<open>numpy.allclose(a, b, atol=atol)\<close> on one-dimensional sequences, with numpy's default
  \<open>rtol = 1e-05\<close> and \<open>equal_nan = False\<close>: every pair must satisfy
  \<open>|a - b| <= atol + rtol * |b|\<close>. Sequences of different lengths are broadcast when one
  of them has length one, and raise \<open>ValueError\<close> otherwise.
\<close>

definition rtol_default :: real where
  "rtol_default = 1 / 10 ^ 5"

definition isclose :: "real \<Rightarrow> pyfloat \<Rightarrow> pyfloat \<Rightarrow> bool" where
  "isclose atol a b =
     fle (fabs (fsub a b)) (fadd (Fl atol) (fmul (Fl rtol_default) (fabs b)))"

definition allclose :: "pyfloat list \<Rightarrow> pyfloat list \<Rightarrow> real \<Rightarrow> bool outcome" where
  "allclose a b atol =
     (if length a = length b then Return (list_all2 (isclose atol) a b)
      else if length a = 1 then Return (list_all (\<lambda>y. isclose atol (hd a) y) b)
      else if length b = 1 then Return (list_all (\<lambda>x. isclose atol x (hd b)) a)
      else Raise (Exn ''ValueError'' ''operands could not be broadcast together''))"

section \<open>Python lists\<close>

definition getitem :: "'a list \<Rightarrow> nat \<Rightarrow> 'a outcome" where
  "getitem xs i =
     (if i < length xs then Return (xs ! i)
      else Raise (Exn ''IndexError'' ''list index out of range''))"

text \<open>\<open>xs[-1]\<close>\<close>

definition getitem_last :: "'a list \<Rightarrow> 'a outcome" where
  "getitem_last xs =
     (if xs = [] then Raise (Exn ''IndexError'' ''list index out of range'')
      else Return (last xs))"

section \<open>The simulation engine\<close>

text \<open>
  The engine (gnpy) is not part of the repository; its entry points are the fields of the
  record \<open>gnpy\<close>. The loaders are functions of their arguments. \<open>SimParams.set_params\<close>,
  \<open>designed_network\<close> and \<open>transmission_simulation\<close> read and may write the process-wide
  \<open>SimParams._shared_dict\<close>, whose value has the type \<open>'c\<close>: they take its value and return
  the new one. The unused components of the tuple \<open>transmission_simulation\<close> returns
  (\<open>propagations\<close>, \<open>powers_dbm_list\<close>, \<open>infos\<close>) are left out.
\<close>

datatype element =
    is_Transceiver: Transceiver (uid: string)
  | Fiber (uid: string)
  | RamanFiber (uid: string)
  | Edfa (uid: string)
  | Roadm (uid: string)
  | Fused (uid: string)

datatype json =
    JNull | JBool bool | JNum real | JStr string | JArr "json list" | JObj "(string \<times> json) list"

record path_element =
  snr :: "pyfloat list"
  osnr_ase :: "pyfloat list"

record ('eq, 'net, 'req, 'c) gnpy =
  load_equipments_and_configs :: "string \<Rightarrow> 'eq outcome"
  load_network :: "string \<Rightarrow> 'eq \<Rightarrow> 'net outcome"
  load_json :: "string \<Rightarrow> json outcome"
  nodes :: "'net \<Rightarrow> element list"
  set_params :: "json \<Rightarrow> 'c \<Rightarrow> unit outcome \<times> 'c"
  designed_network ::
    "'eq \<Rightarrow> 'net \<Rightarrow> string \<Rightarrow> string \<Rightarrow> pyfloat option \<Rightarrow> 'c \<Rightarrow> ('net \<times> 'req \<times> 'req) outcome \<times> 'c"
  transmission_simulation ::
    "'eq \<Rightarrow> 'net \<Rightarrow> 'req \<Rightarrow> 'req \<Rightarrow> 'c \<Rightarrow> path_element list outcome \<times> 'c"

text \<open>Sequencing of calls that thread a state and may raise or hang.\<close>

definition sbind ::
  "('s \<Rightarrow> 'a outcome \<times> 's) \<Rightarrow> ('a \<Rightarrow> 's \<Rightarrow> 'b outcome \<times> 's) \<Rightarrow> 's \<Rightarrow> 'b outcome \<times> 's" where
  "sbind m f s =
     (case m s of
        (Return x, s') \<Rightarrow> f x s'
      | (Raise e, s') \<Rightarrow> (Raise e, s')
      | (Hang, s') \<Rightarrow> (Hang, s'))"

definition lift :: "'a outcome \<Rightarrow> 's \<Rightarrow> 'a outcome \<times> 's" where
  "lift m s = (m, s)"

section \<open>test\_concurrency.py\<close>

definition NUM_WORKERS :: nat where
  "NUM_WORKERS = 4"

record sim_config =
  topology :: string
  equipment :: string

definition get_edfa_config :: sim_config where
  "get_edfa_config =
     \<lparr>topology = ''gnpy/example-data/edfa_example_network.json'',
      equipment = ''gnpy/example-data/eqpt_config.json''\<rparr>"

text \<open>The mapping a successful simulation returns, with its four keys.\<close>

record sim_result =
  avg_gsnr :: pyfloat
  avg_osnr :: pyfloat
  gsnr_values :: "pyfloat list"
  osnr_values :: "pyfloat list"

definition result_of :: "path_element \<Rightarrow> sim_result" where
  "result_of dest =
     \<lparr>avg_gsnr = np_mean (snr dest),
      avg_osnr = np_mean (osnr_ase dest),
      gsnr_values = snr dest,
      osnr_values = osnr_ase dest\<rparr>"

text \<open>\<open>source, destination = trxs[0], trxs[1]\<close>\<close>

definition first_two :: "string list \<Rightarrow> (string \<times> string) outcome" where
  "first_two trxs =
     bind (getitem trxs 0) (\<lambda>source. bind (getitem trxs 1) (\<lambda>destination.
       Return (source, destination)))"

text \<open>
  \<open>_run_single_simulation(config, power_dbm=None)\<close>
  \<^verbatim>\<open>
  equipment = load_equipments_and_configs(config['equipment'], [], [])
  network = load_network(config['topology'], equipment)
  SimParams.set_params({})
  trxs = [n.uid for n in network.nodes() if isinstance(n, Transceiver)]
  source, destination = trxs[0], trxs[1]
  kwargs = {}
  if power_dbm is not None:
      kwargs['args_power'] = power_dbm
  network, req, ref_req = designed_network(equipment, network, source, destination, **kwargs)
  path, propagations, powers_dbm_list, infos = transmission_simulation(
      equipment, network, req, ref_req)
  dest = path[-1]
  return {'avg_gsnr': float(mean(dest.snr)), 'avg_osnr': float(mean(dest.osnr_ase)),
          'gsnr_values': list(dest.snr), 'osnr_values': list(dest.osnr_ase)}
  \<close>
\<close>

definition run_single_simulation ::
  "('eq, 'net, 'req, 'c) gnpy \<Rightarrow> sim_config \<Rightarrow> pyfloat option \<Rightarrow> 'c \<Rightarrow> sim_result outcome \<times> 'c" where
  "run_single_simulation G config power_dbm =
     sbind (lift (load_equipments_and_configs G (equipment config))) (\<lambda>eqpt.
     sbind (lift (load_network G (topology config) eqpt)) (\<lambda>network.
     sbind (set_params G (JObj [])) (\<lambda>_.
     sbind (lift (first_two (map uid (filter is_Transceiver (nodes G network)))))
       (\<lambda>(source, destination).
     sbind (designed_network G eqpt network source destination power_dbm)
       (\<lambda>(network', req, ref_req).
     sbind (transmission_simulation G eqpt network' req ref_req) (\<lambda>path.
     sbind (lift (getitem_last path)) (\<lambda>dest.
     lift (Return (result_of dest)))))))))"

subsection \<open>Approach 1: process pool\<close>

text \<open>
  \<open>_process_worker(args)\<close> runs in a process of the pool, spawned with a fresh interpreter:
  \<open>fresh\<close> is the value \<open>SimParams._shared_dict\<close> has in such a process, and what a
  task leaves in it never reaches the coordinator. Every task is given the dictionary
  \<open>fresh\<close>; that a process of the pool may serve a second task, and then starts it from
  what the first left, is not followed.
\<close>

definition process_worker ::
  "('eq, 'net, 'req, 'c) gnpy \<Rightarrow> 'c \<Rightarrow> sim_config \<times> pyfloat option \<Rightarrow> sim_result outcome" where
  "process_worker G fresh args =
     (case args of (config, power_dbm) \<Rightarrow> fst (run_single_simulation G config power_dbm fresh))"

text \<open>
  What the pool gets back from a task it runs in one of its processes: the result, or the
  exception when it derives from \<open>Exception\<close>. An exception that does not ends the process
  of the pool that ran the task, and the pool never gets anything back for the task.
\<close>

definition in_pool :: "('a \<Rightarrow> 'b outcome) \<Rightarrow> 'a \<Rightarrow> 'b outcome" where
  "in_pool worker t =
     (case worker t of
        Return r \<Rightarrow> Return r
      | Raise e \<Rightarrow> if is_Exception e then Raise e else Hang
      | Hang \<Rightarrow> Hang)"

text \<open>
  \<open>pool.map(worker, tasks)\<close> without a timeout, given what the pool gets back from each
  task: it waits for every task, then returns the results in the order of the tasks, or
  raises the exception of a task that raised (here the first one in the order of the
  tasks).
\<close>

fun pool_map :: "('a \<Rightarrow> 'b outcome) \<Rightarrow> 'a list \<Rightarrow> 'b list outcome" where
  "pool_map worker [] = Return []"
| "pool_map worker (t # ts) =
     (case (worker t, pool_map worker ts) of
        (Hang, _) \<Rightarrow> Hang
      | (_, Hang) \<Rightarrow> Hang
      | (Raise e, _) \<Rightarrow> Raise e
      | (_, Raise e) \<Rightarrow> Raise e
      | (Return r, Return rs) \<Rightarrow> Return (r # rs))"

text \<open>
  The body of the first verification loop:
  \<^verbatim>\<open>
  gsnr_match = allclose(result['gsnr_values'], reference['gsnr_values'], atol=1e-6)
  osnr_match = allclose(result['osnr_values'], reference['osnr_values'], atol=1e-6)
  status = "PASS" if (gsnr_match and osnr_match) else "FAIL"
  \<close>
\<close>

definition worker_status :: "sim_result \<Rightarrow> sim_result \<Rightarrow> string outcome" where
  "worker_status reference result =
     bind (allclose (gsnr_values result) (gsnr_values reference) (1 / 10 ^ 6)) (\<lambda>gsnr_match.
     bind (allclose (osnr_values result) (osnr_values reference) (1 / 10 ^ 6)) (\<lambda>osnr_match.
     Return (if gsnr_match \<and> osnr_match then ''PASS'' else ''FAIL'')))"

fun all_match_loop :: "sim_result \<Rightarrow> sim_result list \<Rightarrow> bool \<Rightarrow> bool outcome" where
  "all_match_loop reference [] all_match = Return all_match"
| "all_match_loop reference (result # results) all_match =
     bind (worker_status reference result) (\<lambda>status.
     all_match_loop reference results (if status = ''FAIL'' then False else all_match))"

text \<open>
  \<^verbatim>\<open>
  gsnr_vals = [r['avg_gsnr'] for r in results_diff]
  all_same = all(abs(g - gsnr_vals[0]) < 1e-6 for g in gsnr_vals)
  \<close>
  The value only selects which message is printed.
\<close>

definition all_same :: "sim_result list \<Rightarrow> bool" where
  "all_same results_diff =
     (let gsnr_vals = map avg_gsnr results_diff
      in list_all (\<lambda>g. flt (fabs (fsub g (hd gsnr_vals))) (Fl (1 / 10 ^ 6))) gsnr_vals)"

text \<open>
  The single-threaded references, one per power:
  \<^verbatim>\<open>
  references_diff = []
  for p in powers:
      ref = _run_single_simulation(config, power_dbm=p)
      references_diff.append(ref)
  \<close>
\<close>

fun references_loop ::
  "('eq, 'net, 'req, 'c) gnpy \<Rightarrow> sim_config \<Rightarrow> pyfloat list \<Rightarrow> sim_result list \<Rightarrow> 'c
     \<Rightarrow> sim_result list outcome \<times> 'c" where
  "references_loop G config [] references_diff c = (Return references_diff, c)"
| "references_loop G config (p # powers) references_diff c =
     (case run_single_simulation G config (Some p) c of
        (Return ref, c') \<Rightarrow> references_loop G config powers (references_diff @ [ref]) c'
      | (Raise e, c') \<Rightarrow> (Raise e, c')
      | (Hang, c') \<Rightarrow> (Hang, c'))"

text \<open>
  \<^verbatim>\<open>
  diff_match = True
  for i, (result, ref) in enumerate(zip(results_diff, references_diff)):
      gsnr_match = allclose(result['gsnr_values'], ref['gsnr_values'], atol=1e-6)
      if not gsnr_match:
          diff_match = False
  \<close>
\<close>

fun diff_match_loop :: "(sim_result \<times> sim_result) list \<Rightarrow> bool \<Rightarrow> bool outcome" where
  "diff_match_loop [] diff_match = Return diff_match"
| "diff_match_loop ((result, ref) # rest) diff_match =
     bind (allclose (gsnr_values result) (gsnr_values ref) (1 / 10 ^ 6)) (\<lambda>gsnr_match.
     diff_match_loop rest (if \<not> gsnr_match then False else diff_match))"

definition powers :: "pyfloat list" where
  "powers = take NUM_WORKERS [Fl (- 2), Fl (- 1), Fl 0, Fl 1]"

text \<open>
  \<open>test_process_pool_isolation()\<close>, without its printing and the timings it prints (the
  time of the reference run, by which one of them is divided, is taken to be positive). An
  exception of a pool makes the function return \<open>False\<close>; an exception of a reference run or
  of a comparison is not caught. The handlers around the pools are \<open>except Exception\<close>.
  The value of \<open>all_same\<close> is bound and not used after.
\<close>

definition test_process_pool_isolation ::
  "('eq, 'net, 'req, 'c) gnpy \<Rightarrow> 'c \<Rightarrow> 'c \<Rightarrow> bool outcome \<times> 'c" where
  "test_process_pool_isolation G fresh =
     (let config = get_edfa_config in
      sbind (run_single_simulation G config None) (\<lambda>reference.
      let tasks = replicate NUM_WORKERS (config, None) in
      case pool_map (in_pool (process_worker G fresh)) tasks of
        Hang \<Rightarrow> lift Hang
      | Raise e \<Rightarrow> if is_Exception e then lift (Return False) else lift (Raise e)
      | Return results \<Rightarrow>
          sbind (lift (all_match_loop reference results True)) (\<lambda>all_match.
          let tasks_diff = map (\<lambda>p. (config, Some p)) powers in
          case pool_map (in_pool (process_worker G fresh)) tasks_diff of
            Hang \<Rightarrow> lift Hang
          | Raise e \<Rightarrow> if is_Exception e then lift (Return False) else lift (Raise e)
          | Return results_diff \<Rightarrow>
              let warning = all_same results_diff in
              sbind (references_loop G config powers []) (\<lambda>references_diff.
              sbind (lift (diff_match_loop (zip results_diff references_diff) True))
                (\<lambda>diff_match.
              let overall = all_match \<and> diff_match in
              lift (Return overall))))))"

subsection \<open>Approach 2: threads\<close>

text \<open>
  The state a thread worker acts on: the class attribute \<open>SimParams._shared_dict\<close>, the
  attribute \<open>sim_params_backup\<close> of the worker's own \<open>threading.local\<close> view (\<open>None\<close> while
  the attribute does not exist), and the registry \<open>results_dict\<close>. An entry of the registry
  is the mapping of a result or the mapping \<open>{'error': str(e)}\<close>. The field \<open>trace\<close> records,
  in order, the steps the worker takes on the shared objects: \<open>Reset c\<close> with the value
  \<open>c\<close> of the shared dictionary just before \<open>SimParams.set_params({})\<close>, \<open>Restore c\<close> with
  its value just after the assignment in the \<open>finally\<close> block, \<open>Write i\<close> for
  \<open>results_dict[i] = ...\<close>, \<open>Acquire\<close> and \<open>Release\<close> for entering and leaving
  \<open>with lock\<close>.
\<close>

datatype 'c event =
    Backup | Reset 'c | Acquire | is_Write: Write nat | Release | is_Restore: Restore 'c

datatype entry = Result sim_result | Error string

record 'c tstate =
  shared_dict :: 'c
  sim_params_backup :: "'c option"
  results_dict :: "nat \<rightharpoonup> entry"
  trace :: "'c event list"

definition on_store :: "('c \<Rightarrow> 'a outcome \<times> 'c) \<Rightarrow> 'c tstate \<Rightarrow> 'a outcome \<times> 'c tstate" where
  "on_store call s = (case call (shared_dict s) of (r, c) \<Rightarrow> (r, s\<lparr>shared_dict := c\<rparr>))"

text \<open>\<open>_thread_local.sim_params_backup = deepcopy(SimParams._shared_dict)\<close>\<close>

definition take_backup :: "'c tstate \<Rightarrow> unit outcome \<times> 'c tstate" where
  "take_backup s =
     (Return (), s\<lparr>sim_params_backup := Some (shared_dict s), trace := trace s @ [Backup]\<rparr>)"

text \<open>\<open>SimParams.set_params({})\<close>\<close>

definition reset_params ::
  "('eq, 'net, 'req, 'c) gnpy \<Rightarrow> 'c tstate \<Rightarrow> unit outcome \<times> 'c tstate" where
  "reset_params G s =
     on_store (set_params G (JObj [])) (s\<lparr>trace := trace s @ [Reset (shared_dict s)]\<rparr>)"

text \<open>
  \<^verbatim>\<open>
  with lock:
      results_dict[index] = value
  \<close>
\<close>

definition store_entry :: "nat \<Rightarrow> entry \<Rightarrow> 'c tstate \<Rightarrow> unit outcome \<times> 'c tstate" where
  "store_entry index v s =
     (Return (), s\<lparr>results_dict := (results_dict s)(index \<mapsto> v),
                    trace := trace s @ [Acquire, Write index, Release]\<rparr>)"

text \<open>The \<open>try\<close> block of \<open>_thread_worker\<close>.\<close>

definition worker_try ::
  "('eq, 'net, 'req, 'c) gnpy \<Rightarrow> sim_config \<Rightarrow> pyfloat option \<Rightarrow> nat \<Rightarrow> 'c tstate
     \<Rightarrow> unit outcome \<times> 'c tstate" where
  "worker_try G config power_dbm index =
     sbind (lift (load_equipments_and_configs G (equipment config))) (\<lambda>eqpt.
     sbind (lift (load_network G (topology config) eqpt)) (\<lambda>network.
     sbind take_backup (\<lambda>_.
     sbind (reset_params G) (\<lambda>_.
     sbind (lift (first_two (map uid (filter is_Transceiver (nodes G network)))))
       (\<lambda>(source, destination).
     sbind (on_store (designed_network G eqpt network source destination power_dbm))
       (\<lambda>(network', req, ref_req).
     sbind (on_store (transmission_simulation G eqpt network' req ref_req)) (\<lambda>path.
     sbind (lift (getitem_last path)) (\<lambda>dest.
     store_entry index (Result (result_of dest))))))))))"

text \<open>
  The \<open>finally\<close> block:
  \<^verbatim>\<open>
  if hasattr(_thread_local, 'sim_params_backup'):
      SimParams._shared_dict = _thread_local.sim_params_backup
  \<close>
\<close>

definition restore_backup :: "'c tstate \<Rightarrow> 'c tstate" where
  "restore_backup s =
     (case sim_params_backup s of
        None \<Rightarrow> s
      | Some backup \<Rightarrow> s\<lparr>shared_dict := backup, trace := trace s @ [Restore backup]\<rparr>)"

text \<open>
  \<open>_thread_worker(config, power_dbm, results_dict, index, lock)\<close>: the \<open>try\<close> block, the
  handler \<open>except Exception as e\<close> that stores \<open>{'error': str(e)}\<close>, and the \<open>finally\<close> block.
  An exception that does not derive from \<open>Exception\<close> passes the handler: the \<open>finally\<close>
  block runs and the worker ends with that exception, which ends its thread. A worker that
  hangs reaches neither the handler nor the \<open>finally\<close> block.
\<close>

definition thread_worker ::
  "('eq, 'net, 'req, 'c) gnpy \<Rightarrow> sim_config \<Rightarrow> pyfloat option \<Rightarrow> nat \<Rightarrow> 'c tstate
     \<Rightarrow> unit outcome \<times> 'c tstate" where
  "thread_worker G config power_dbm index s =
     (case worker_try G config power_dbm index s of
        (Return _, s1) \<Rightarrow> (Return (), restore_backup s1)
      | (Raise e, s1) \<Rightarrow>
          if is_Exception e
          then (case store_entry index (Error (str e)) s1 of (r, s2) \<Rightarrow> (r, restore_backup s2))
          else (Raise e, restore_backup s1)
      | (Hang, s1) \<Rightarrow> (Hang, s1))"

text \<open>
  Whether every \<open>Write\<close> of a trace happens while the lock is held; \<open>held\<close> tells
  whether it is held at the start.
\<close>

fun writes_locked :: "bool \<Rightarrow> 'c event list \<Rightarrow> bool" where
  "writes_locked held [] = True"
| "writes_locked held (Acquire # evs) = writes_locked True evs"
| "writes_locked held (Release # evs) = writes_locked False evs"
| "writes_locked held (Write i # evs) = (held \<and> writes_locked held evs)"
| "writes_locked held (_ # evs) = writes_locked held evs"

text \<open>
  \<open>for t in threads: t.join()\<close>, given what becomes of each thread: \<open>join\<close> has no timeout
  and returns once the thread has ended, with or without an exception.
\<close>

fun join_all :: "unit outcome list \<Rightarrow> unit outcome" where
  "join_all [] = Return ()"
| "join_all (t # threads) = (case t of Hang \<Rightarrow> Hang | _ \<Rightarrow> join_all threads)"

text \<open>
  The verification loop for the threads that ran with the same parameters:
  \<^verbatim>\<open>
  for i in range(NUM_WORKERS):
      result = results_dict.get(i)
      if result is None:
          same_param_pass = False
      elif 'error' in result:
          same_param_pass = False
      else:
          gsnr_match = allclose(result['gsnr_values'], reference['gsnr_values'], atol=1e-4)
          if not gsnr_match:
              same_param_pass = False
  \<close>
\<close>

fun same_param_loop ::
  "sim_result \<Rightarrow> (nat \<rightharpoonup> entry) \<Rightarrow> nat list \<Rightarrow> bool \<Rightarrow> bool outcome" where
  "same_param_loop reference registry [] same_param_pass = Return same_param_pass"
| "same_param_loop reference registry (i # rest) same_param_pass =
     (case registry i of
        None \<Rightarrow> same_param_loop reference registry rest False
      | Some (Error msg) \<Rightarrow> same_param_loop reference registry rest False
      | Some (Result result) \<Rightarrow>
          bind (allclose (gsnr_values result) (gsnr_values reference) (1 / 10 ^ 4))
            (\<lambda>gsnr_match.
          same_param_loop reference registry rest
            (if \<not> gsnr_match then False else same_param_pass)))"

text \<open>
  The loop for the threads that ran with different powers compares thread \<open>i\<close> with
  \<open>references_diff[i]\<close>.
\<close>

fun diff_param_loop ::
  "sim_result list \<Rightarrow> (nat \<rightharpoonup> entry) \<Rightarrow> nat list \<Rightarrow> bool \<Rightarrow> bool outcome" where
  "diff_param_loop references_diff registry_diff [] diff_param_pass = Return diff_param_pass"
| "diff_param_loop references_diff registry_diff (i # rest) diff_param_pass =
     (case registry_diff i of
        None \<Rightarrow> diff_param_loop references_diff registry_diff rest False
      | Some (Error msg) \<Rightarrow> diff_param_loop references_diff registry_diff rest False
      | Some (Result result) \<Rightarrow>
          bind (getitem references_diff i) (\<lambda>ref.
          bind (allclose (gsnr_values result) (gsnr_values ref) (1 / 10 ^ 4)) (\<lambda>gsnr_match.
          diff_param_loop references_diff registry_diff rest
            (if \<not> gsnr_match then False else diff_param_pass))))"

text \<open>
  The threads of a batch, each started in a thread of its own (so without a backup
  attribute), in the schedule where every thread runs to its end before the next one
  starts; a thread that hangs does not keep the later ones from running. The result is what
  became of each thread, and the state they leave.
\<close>

fun run_threads ::
  "('eq, 'net, 'req, 'c) gnpy \<Rightarrow> sim_config \<Rightarrow> (nat \<times> pyfloat option) list \<Rightarrow> 'c tstate
     \<Rightarrow> unit outcome list \<times> 'c tstate" where
  "run_threads G config [] s = ([], s)"
| "run_threads G config ((i, p) # jobs) s =
     (case thread_worker G config p i (s\<lparr>sim_params_backup := None\<rparr>) of (t, s') \<Rightarrow>
      case run_threads G config jobs s' of (threads, s'') \<Rightarrow> (t # threads, s''))"

text \<open>
  A batch: a fresh registry, one thread per job, and the join of all threads. The registry
  and the shared dictionary are those the batch leaves.
\<close>

definition sequential_batch ::
  "('eq, 'net, 'req, 'c) gnpy \<Rightarrow> sim_config \<Rightarrow> (nat \<times> pyfloat option) list \<Rightarrow> 'c
     \<Rightarrow> (nat \<rightharpoonup> entry) outcome \<times> 'c" where
  "sequential_batch G config jobs c =
     (case run_threads G config jobs
             \<lparr>shared_dict = c, sim_params_backup = None, results_dict = Map.empty, trace = []\<rparr>
      of (threads, s) \<Rightarrow>
        (case join_all threads of
           Return _ \<Rightarrow> (Return (results_dict s), shared_dict s)
         | Raise e \<Rightarrow> (Raise e, shared_dict s)
         | Hang \<Rightarrow> (Hang, shared_dict s)))"

text \<open>
  \<open>test_deep_copy_thread_local()\<close>, without its printing and the timings it prints (the
  time of the reference run is taken to be positive). The threads of a batch run
  concurrently; what a batch leaves in its registry and in the shared dictionary once all
  its threads are joined depends on how they interleave, and is the parameter \<open>batch\<close>.
\<close>

definition test_deep_copy_thread_local ::
  "('eq, 'net, 'req, 'c) gnpy
     \<Rightarrow> (sim_config \<Rightarrow> (nat \<times> pyfloat option) list \<Rightarrow> 'c \<Rightarrow> (nat \<rightharpoonup> entry) outcome \<times> 'c)
     \<Rightarrow> 'c \<Rightarrow> bool outcome \<times> 'c" where
  "test_deep_copy_thread_local G batch =
     (let config = get_edfa_config in
      sbind (run_single_simulation G config None) (\<lambda>reference.
      sbind (batch config (map (\<lambda>i. (i, None)) [0..<NUM_WORKERS])) (\<lambda>registry.
      sbind (lift (same_param_loop reference registry [0..<NUM_WORKERS] True))
        (\<lambda>same_param_pass.
      sbind (batch config (zip [0..<length powers] (map Some powers))) (\<lambda>registry_diff.
      sbind (references_loop G config powers []) (\<lambda>references_diff.
      sbind (lift (diff_param_loop references_diff registry_diff [0..<NUM_WORKERS] True))
        (\<lambda>diff_param_pass.
      let overall = same_param_pass \<and> diff_param_pass in
      lift (Return overall))))))))"

section \<open>benchmark.py: timing one network\<close>

definition NUM_RUNS :: nat where
  "NUM_RUNS = 3"

record bench_config = sim_config +
  sim_params :: "string option"
  source :: "string option"
  destination :: "string option"

record bench_results =
  equipment_load :: "pyfloat list"
  network_load :: "pyfloat list"
  network_design :: "pyfloat list"
  transmission_sim :: "pyfloat list"

text \<open>\<open>_find_transceivers(network)\<close>\<close>

definition find_transceivers :: "('eq, 'net, 'req, 'c) gnpy \<Rightarrow> 'net \<Rightarrow> string list" where
  "find_transceivers G network = map uid (filter is_Transceiver (nodes G network))"

text \<open>
  \<open>_time_it(func, *args)\<close>: the result of the call and the seconds \<open>time.perf_counter\<close>
  measured around it, which the parameter \<open>elapsed\<close> supplies.
\<close>

definition time_it ::
  "real \<Rightarrow> ('s \<Rightarrow> 'a outcome \<times> 's) \<Rightarrow> 's \<Rightarrow> ('a \<times> pyfloat) outcome \<times> 's" where
  "time_it elapsed call = sbind call (\<lambda>result. lift (Return (result, Fl elapsed)))"

text \<open>
  \<open>x or xs[i]\<close> for a string \<open>x\<close> that may be \<open>None\<close>: \<open>None\<close> and the empty string are
  false, and only then is \<open>xs[i]\<close> read.
\<close>

definition or_getitem :: "string option \<Rightarrow> string list \<Rightarrow> nat \<Rightarrow> string outcome" where
  "or_getitem x xs i =
     (case x of None \<Rightarrow> getitem xs i | Some s \<Rightarrow> if s = [] then getitem xs i else Return s)"

text \<open>What an iteration of a loop does next: the next iteration, or \<open>return\<close>.\<close>

datatype 'a ctl = Next 'a | Exit 'a

text \<open>
  Phases 3 and 4 of one run, each in a \<open>try\<close> whose handler \<open>except Exception\<close> records
  \<open>float('nan')\<close>; the handler of phase 3 goes on to the next run. \<open>clock run k\<close> is the time measured in run
  \<open>run\<close> around the \<open>k\<close>-th timed call.
\<close>

definition design_and_simulate ::
  "('eq, 'net, 'req, 'c) gnpy \<Rightarrow> (nat \<Rightarrow> nat \<Rightarrow> real) \<Rightarrow> nat \<Rightarrow> 'eq \<Rightarrow> 'net \<Rightarrow> string \<Rightarrow> string
     \<Rightarrow> bench_results \<Rightarrow> 'c \<Rightarrow> bench_results ctl outcome \<times> 'c" where
  "design_and_simulate G clock run eqpt network src dst results c =
     (case time_it (clock run 2) (designed_network G eqpt network src dst None) c of
        (Raise e, c') \<Rightarrow>
          if is_Exception e
          then (Return (Next (results\<lparr>network_design := network_design results @ [NaN]\<rparr>)), c')
          else (Raise e, c')
      | (Hang, c') \<Rightarrow> (Hang, c')
      | (Return ((network_d, req, ref_req), t_design), c') \<Rightarrow>
          (let results = results\<lparr>network_design := network_design results @ [t_design]\<rparr> in
           case time_it (clock run 3) (transmission_simulation G eqpt network_d req ref_req) c' of
             (Raise e, c'') \<Rightarrow>
               if is_Exception e
               then (Return (Next (results\<lparr>transmission_sim :=
                                transmission_sim results @ [NaN]\<rparr>)), c'')
               else (Raise e, c'')
           | (Hang, c'') \<Rightarrow> (Hang, c'')
           | (Return (_, t_sim), c'') \<Rightarrow>
               (Return (Next (results\<lparr>transmission_sim := transmission_sim results @ [t_sim]\<rparr>)),
                c'')))"

text \<open>
  The body of \<open>for run in range(NUM_RUNS)\<close>. The loaders and \<open>SimParams.set_params\<close> are
  called outside any \<open>try\<close>.
\<close>

definition benchmark_run ::
  "('eq, 'net, 'req, 'c) gnpy \<Rightarrow> (nat \<Rightarrow> nat \<Rightarrow> real) \<Rightarrow> bench_config \<Rightarrow> nat \<Rightarrow> bench_results
     \<Rightarrow> 'c \<Rightarrow> bench_results ctl outcome \<times> 'c" where
  "benchmark_run G clock config run results =
     sbind (time_it (clock run 0) (lift (load_equipments_and_configs G (equipment config))))
       (\<lambda>(eqpt, t_eqpt).
     let results = results\<lparr>equipment_load := equipment_load results @ [t_eqpt]\<rparr> in
     sbind (time_it (clock run 1) (lift (load_network G (topology config) eqpt)))
       (\<lambda>(network, t_net).
     let results = results\<lparr>network_load := network_load results @ [t_net]\<rparr> in
     sbind (case sim_params config of
              Some file \<Rightarrow> lift (load_json G file)
            | None \<Rightarrow> lift (Return (JObj []))) (\<lambda>params.
     sbind (set_params G params) (\<lambda>_.
     case (source config, destination config) of
       (Some src, Some dst) \<Rightarrow> design_and_simulate G clock run eqpt network src dst results
     | _ \<Rightarrow>
         (let trx_uids = find_transceivers G network in
          if length trx_uids < 2 then lift (Return (Exit results))
          else sbind (lift (or_getitem (source config) trx_uids 0)) (\<lambda>src.
               sbind (lift (or_getitem (destination config) trx_uids 1)) (\<lambda>dst.
               design_and_simulate G clock run eqpt network src dst results)))))))"

fun benchmark_loop ::
  "('eq, 'net, 'req, 'c) gnpy \<Rightarrow> (nat \<Rightarrow> nat \<Rightarrow> real) \<Rightarrow> bench_config \<Rightarrow> nat list \<Rightarrow> bench_results
     \<Rightarrow> 'c \<Rightarrow> bench_results outcome \<times> 'c" where
  "benchmark_loop G clock config [] results c = (Return results, c)"
| "benchmark_loop G clock config (run # runs) results c =
     (case benchmark_run G clock config run results c of
        (Return (Next results'), c') \<Rightarrow> benchmark_loop G clock config runs results' c'
      | (Return (Exit results'), c') \<Rightarrow> (Return results', c')
      | (Raise e, c') \<Rightarrow> (Raise e, c')
      | (Hang, c') \<Rightarrow> (Hang, c'))"

text \<open>\<open>benchmark_network(name, config)\<close>; the name is only printed.\<close>

definition benchmark_network ::
  "('eq, 'net, 'req, 'c) gnpy \<Rightarrow> (nat \<Rightarrow> nat \<Rightarrow> real) \<Rightarrow> string \<Rightarrow> bench_config \<Rightarrow> 'c
     \<Rightarrow> bench_results outcome \<times> 'c" where
  "benchmark_network G clock name config =
     benchmark_loop G clock config [0..<NUM_RUNS]
       \<lparr>equipment_load = [], network_load = [], network_design = [], transmission_sim = []\<rparr>"

section \<open>Example engines\<close>

text \<open>
  A small engine on which the statements below are instantiated. A network is its list of
  nodes; the request holds the power, \<open>0\<close> when none is given; the shared dictionary is a
  counter that \<open>set_params\<close> resets and every engine call increments.
\<close>

definition demo_gnpy :: "(unit, element list, real, nat) gnpy" where
  "demo_gnpy =
     \<lparr>load_equipments_and_configs = (\<lambda>file. Return ()),
      load_network = (\<lambda>file eqpt. Return
        (if file = ''one_transceiver.json'' then [Transceiver ''A'', Fiber ''span'']
         else [Transceiver ''A'', Fiber ''span'', Transceiver ''B''])),
      load_json = (\<lambda>file. Return (JObj [])),
      nodes = (\<lambda>network. network),
      set_params = (\<lambda>params c. (Return (), 0)),
      designed_network = (\<lambda>eqpt network src dst power c.
        (Return (network, (case power of Some (Fl p) \<Rightarrow> p | _ \<Rightarrow> 0), 0), c + 1)),
      transmission_simulation = (\<lambda>eqpt network req ref_req c.
        (Return [\<lparr>snr = [Fl (20 - req), Fl (21 - req)], osnr_ase = [Fl (30 + req)]\<rparr>], c + 1))\<rparr>"

text \<open>What the example engine computes at the power \<open>p\<close>.\<close>

definition demo_result :: "real \<Rightarrow> sim_result" where
  "demo_result p =
     \<lparr>avg_gsnr = Fl ((41 - 2 * p) / 2), avg_osnr = Fl (30 + p),
      gsnr_values = [Fl (20 - p), Fl (21 - p)], osnr_values = [Fl (30 + p)]\<rparr>"

text \<open>An engine that ignores the power.\<close>

definition blind_gnpy :: "(unit, element list, real, nat) gnpy" where
  "blind_gnpy = demo_gnpy\<lparr>designed_network :=
     (\<lambda>eqpt network src dst power c. (Return (network, 0, 0), c + 1))\<rparr>"

text \<open>An engine that finds no path at the power \<open>-1\<close>.\<close>

definition failing_gnpy :: "(unit, element list, real, nat) gnpy" where
  "failing_gnpy = demo_gnpy\<lparr>designed_network :=
     (\<lambda>eqpt network src dst power c.
        if power = Some (Fl (- 1)) then (Raise (Exn ''ServiceError'' ''no path''), c)
        else designed_network demo_gnpy eqpt network src dst power c)\<rparr>"

text \<open>An engine that never returns at the power \<open>0\<close>.\<close>

definition hanging_gnpy :: "(unit, element list, real, nat) gnpy" where
  "hanging_gnpy = demo_gnpy\<lparr>designed_network :=
     (\<lambda>eqpt network src dst power c.
        if power = Some (Fl 0) then (Hang, c)
        else designed_network demo_gnpy eqpt network src dst power c)\<rparr>"

text \<open>An engine whose path computation ends the interpreter with \<open>sys.exit(1)\<close>.\<close>

definition exiting_gnpy :: "(unit, element list, real, nat) gnpy" where
  "exiting_gnpy = demo_gnpy\<lparr>designed_network :=
     (\<lambda>eqpt network src dst power c. (Raise (BaseExn ''SystemExit'' ''1''), c + 1))\<rparr>"

text \<open>An engine whose topology loader fails.\<close>

definition unloadable_gnpy :: "(unit, element list, real, nat) gnpy" where
  "unloadable_gnpy = demo_gnpy\<lparr>load_network :=
     (\<lambda>file eqpt. Raise (Exn ''NetworkTopologyError'' ''invalid topology''))\<rparr>"

definition one_transceiver_config :: bench_config where
  "one_transceiver_config =
     \<lparr>topology = ''one_transceiver.json'', equipment = ''eqpt_config.json'',
      sim_params = None, source = None, destination = None\<rparr>"

definition two_transceiver_config :: bench_config where
  "two_transceiver_config =
     \<lparr>topology = ''two_transceivers.json'', equipment = ''eqpt_config.json'',
      sim_params = None, source = None, destination = None\<rparr>"

definition fresh_thread :: "nat \<Rightarrow> nat tstate" where
  "fresh_thread c =
     \<lparr>shared_dict = c, sim_params_backup = None, results_dict = Map.empty, trace = []\<rparr>"

section \<open>Laws of the sequencing operators\<close>

lemma bind_Return [simp]: "bind (Return x) f = f x"
  by (simp add: bind_def)

lemma bind_Raise [simp]: "bind (Raise e) f = Raise e"
  by (simp add: bind_def)

lemma bind_Hang [simp]: "bind Hang f = Hang"
  by (simp add: bind_def)

lemma sbind_lift_Return [simp]: "sbind (lift (Return x)) f = f x"
  by (rule ext) (simp add: sbind_def lift_def)

lemma sbind_lift_Raise [simp]: "sbind (lift (Raise e)) f = lift (Raise e)"
  by (rule ext) (simp add: sbind_def lift_def)

lemma sbind_lift_Hang [simp]: "sbind (lift Hang) f = lift Hang"
  by (rule ext) (simp add: sbind_def lift_def)

lemma first_two_short:
  "length trxs < 2 \<Longrightarrow> first_two trxs = Raise (Exn ''IndexError'' ''list index out of range'')"
  by (cases trxs) (auto simp: first_two_def getitem_def)

section \<open>What a thread worker does\<close>

text \<open>
  When both loaders return, the worker computes what \<open>_run_single_simulation\<close> computes
  from the same shared dictionary, between its backup and its restore.
\<close>

lemma run_single_simulation_loaded:
  assumes "load_equipments_and_configs G (equipment config) = Return eqpt"
      and "load_network G (topology config) eqpt = Return network"
  shows "run_single_simulation G config power_dbm =
     sbind (set_params G (JObj [])) (\<lambda>_.
     sbind (lift (first_two (map uid (filter is_Transceiver (nodes G network)))))
       (\<lambda>(source, destination).
     sbind (designed_network G eqpt network source destination power_dbm)
       (\<lambda>(network', req, ref_req).
     sbind (transmission_simulation G eqpt network' req ref_req) (\<lambda>path.
     sbind (lift (getitem_last path)) (\<lambda>dest.
     lift (Return (result_of dest)))))))"
  unfolding run_single_simulation_def by (simp add: assms)

lemma worker_try_loaded:
  assumes "load_equipments_and_configs G (equipment config) = Return eqpt"
      and "load_network G (topology config) eqpt = Return network"
  shows "worker_try G config power_dbm index s =
     (let s0 = s\<lparr>sim_params_backup := Some (shared_dict s),
                  trace := trace s @ [Backup, Reset (shared_dict s)]\<rparr>
      in case run_single_simulation G config power_dbm (shared_dict s) of
           (Return r, c) \<Rightarrow>
             (Return (), s0\<lparr>shared_dict := c,
                             results_dict := (results_dict s)(index \<mapsto> Result r),
                             trace := trace s0 @ [Acquire, Write index, Release]\<rparr>)
         | (Raise e, c) \<Rightarrow> (Raise e, s0\<lparr>shared_dict := c\<rparr>)
         | (Hang, c) \<Rightarrow> (Hang, s0\<lparr>shared_dict := c\<rparr>))"
  unfolding worker_try_def run_single_simulation_loaded[OF assms]
  by (simp add: assms)
     (auto simp: sbind_def lift_def take_backup_def reset_params_def on_store_def
                 store_entry_def Let_def
           split: prod.splits outcome.splits)

lemma thread_worker_loaded:
  assumes "load_equipments_and_configs G (equipment config) = Return eqpt"
      and "load_network G (topology config) eqpt = Return network"
  shows "thread_worker G config power_dbm index s =
     (let c0 = shared_dict s
      in case run_single_simulation G config power_dbm c0 of
           (Return r, c) \<Rightarrow>
             (Return (), s\<lparr>sim_params_backup := Some c0,
                            results_dict := (results_dict s)(index \<mapsto> Result r),
                            trace := trace s @ [Backup, Reset c0, Acquire, Write index, Release,
                                                Restore c0]\<rparr>)
         | (Raise e, c) \<Rightarrow>
             if is_Exception e
             then (Return (), s\<lparr>sim_params_backup := Some c0,
                            results_dict := (results_dict s)(index \<mapsto> Error (str e)),
                            trace := trace s @ [Backup, Reset c0, Acquire, Write index, Release,
                                                Restore c0]\<rparr>)
             else (Raise e, s\<lparr>sim_params_backup := Some c0,
                             trace := trace s @ [Backup, Reset c0, Restore c0]\<rparr>)
         | (Hang, c) \<Rightarrow>
             (Hang, s\<lparr>shared_dict := c, sim_params_backup := Some c0,
                       trace := trace s @ [Backup, Reset c0]\<rparr>))"
  unfolding thread_worker_def worker_try_loaded[OF assms]
  by (auto simp: Let_def store_entry_def restore_backup_def split: prod.splits outcome.splits)

text \<open>When a loader raises, nothing has touched the shared dictionary or the backup.\<close>

lemma worker_try_not_loaded:
  assumes "bind (load_equipments_and_configs G (equipment config))
             (\<lambda>eqpt. load_network G (topology config) eqpt) = Raise e"
  shows "worker_try G config power_dbm index s = (Raise e, s)"
    and "run_single_simulation G config power_dbm c = (Raise e, c)"
  using assms unfolding worker_try_def run_single_simulation_def
  by (auto simp: bind_def lift_def split: outcome.splits)

lemma thread_worker_not_loaded:
  assumes "bind (load_equipments_and_configs G (equipment config))
             (\<lambda>eqpt. load_network G (topology config) eqpt) = Raise e"
  shows "thread_worker G config power_dbm index s =
     (if is_Exception e
      then (Return (), restore_backup (s\<lparr>results_dict := (results_dict s)(index \<mapsto> Error (str e)),
                                         trace := trace s @ [Acquire, Write index, Release]\<rparr>))
      else (Raise e, restore_backup s))"
  unfolding thread_worker_def worker_try_not_loaded(1)[OF assms]
  by (simp add: store_entry_def)

lemma worker_try_loader_hangs:
  assumes "bind (load_equipments_and_configs G (equipment config))
             (\<lambda>eqpt. load_network G (topology config) eqpt) = Hang"
  shows "thread_worker G config power_dbm index s = (Hang, s)"
  using assms unfolding thread_worker_def worker_try_def
  by (auto simp: bind_def lift_def split: outcome.splits)

lemma loaders_cases:
  obtains (loaded) eqpt network where
      "load_equipments_and_configs G (equipment config) = Return eqpt"
      "load_network G (topology config) eqpt = Return network"
  | (raised) e where
      "bind (load_equipments_and_configs G (equipment config))
         (\<lambda>eqpt. load_network G (topology config) eqpt) = Raise e"
  | (hangs)
      "bind (load_equipments_and_configs G (equipment config))
         (\<lambda>eqpt. load_network G (topology config) eqpt) = Hang"
proof (cases "load_equipments_and_configs G (equipment config)")
  case (Return eqpt)
  then show ?thesis
    by (cases "load_network G (topology config) eqpt") (auto intro: loaded raised hangs)
next
  case (Raise e)
  then show ?thesis by (auto intro: raised)
next
  case Hang
  then show ?thesis by (auto intro: hangs)
qed

section \<open>The example engine at work\<close>

lemma demo_loaded:
  "load_equipments_and_configs demo_gnpy (equipment get_edfa_config) = Return ()"
  "load_network demo_gnpy (topology get_edfa_config) ()
     = Return [Transceiver ''A'', Fiber ''span'', Transceiver ''B'']"
  by (simp_all add: demo_gnpy_def get_edfa_config_def)

lemma demo_run_single_simulation:
  "run_single_simulation demo_gnpy get_edfa_config power_dbm c =
     (let p = (case power_dbm of Some (Fl p) \<Rightarrow> p | _ \<Rightarrow> 0)
      in (Return \<lparr>avg_gsnr = Fl ((41 - 2 * p) / 2), avg_osnr = Fl (30 + p),
                   gsnr_values = [Fl (20 - p), Fl (21 - p)], osnr_values = [Fl (30 + p)]\<rparr>, 2))"
  unfolding run_single_simulation_loaded[OF demo_loaded]
  by (simp add: demo_gnpy_def sbind_def lift_def first_two_def getitem_def getitem_last_def
                result_of_def np_mean_def Let_def)

lemma demo_thread_worker:
  "thread_worker demo_gnpy get_edfa_config (Some (Fl 1)) 2 (fresh_thread 7) =
     (Return (),
      \<lparr>shared_dict = 7, sim_params_backup = Some 7,
       results_dict = [2 \<mapsto> Result \<lparr>avg_gsnr = Fl (39 / 2), avg_osnr = Fl 31,
                                     gsnr_values = [Fl 19, Fl 20], osnr_values = [Fl 31]\<rparr>],
       trace = [Backup, Reset 7, Acquire, Write 2, Release, Restore 7]\<rparr>)"
  unfolding thread_worker_loaded[OF demo_loaded] demo_run_single_simulation
  by (simp add: fresh_thread_def)

section \<open>The loops of the two tests\<close>

lemma references_loop_append:
  "references_loop G config (ps @ qs) acc c =
     (case references_loop G config ps acc c of
        (Return rs, c1) \<Rightarrow> references_loop G config qs rs c1
      | (Raise e, c1) \<Rightarrow> (Raise e, c1)
      | (Hang, c1) \<Rightarrow> (Hang, c1))"
  by (induction ps arbitrary: acc c) (auto split: prod.splits outcome.splits)

lemma references_loop_length:
  "references_loop G config ps acc c = (Return refs, c') \<Longrightarrow>
     length refs = length acc + length ps"
  by (induction ps arbitrary: acc c) (auto split: prod.splits outcome.splits)

lemma references_loop_returns:
  assumes "\<forall>p \<in> set ps. \<forall>c. \<exists>r c'. run_single_simulation G config (Some p) c = (Return r, c')"
  shows "\<exists>refs c'. references_loop G config ps acc c = (Return refs, c')"
  using assms
proof (induction ps arbitrary: acc c)
  case Nil
  then show ?case by simp
next
  case (Cons p ps)
  then obtain r c1 where "run_single_simulation G config (Some p) c = (Return r, c1)"
    by (meson list.set_intros(1))
  with Cons show ?case by simp
qed

lemma failing_run_single_simulation:
  "run_single_simulation failing_gnpy get_edfa_config (Some (Fl p)) c =
     (if p = - 1 then (Raise (Exn ''ServiceError'' ''no path''), 0)
      else (Return \<lparr>avg_gsnr = Fl ((41 - 2 * p) / 2), avg_osnr = Fl (30 + p),
                    gsnr_values = [Fl (20 - p), Fl (21 - p)], osnr_values = [Fl (30 + p)]\<rparr>, 2))"
proof -
  have l: "load_equipments_and_configs failing_gnpy (equipment get_edfa_config) = Return ()"
    "load_network failing_gnpy (topology get_edfa_config) ()
       = Return [Transceiver ''A'', Fiber ''span'', Transceiver ''B'']"
    by (simp_all add: failing_gnpy_def demo_gnpy_def get_edfa_config_def)
  show ?thesis
    unfolding run_single_simulation_loaded[OF l]
    by (simp add: failing_gnpy_def demo_gnpy_def sbind_def lift_def first_two_def getitem_def
                  getitem_last_def result_of_def np_mean_def)
qed

lemma powers_eq: "powers = [Fl (- 2), Fl (- 1), Fl 0, Fl 1]"
  by (simp add: powers_def NUM_WORKERS_def)

section \<open>Waiting for the workers\<close>

lemma pool_map_Hang: "pool_map worker tasks = Hang \<longleftrightarrow> (\<exists>t \<in> set tasks. worker t = Hang)"
  by (induction tasks) (auto split: outcome.splits)

lemma pool_map_ReturnD:
  "pool_map worker tasks = Return rs \<Longrightarrow> list_all2 (\<lambda>t r. worker t = Return r) tasks rs"
  by (induction tasks arbitrary: rs) (auto split: outcome.splits)

lemma pool_map_ReturnI:
  "list_all2 (\<lambda>t r. worker t = Return r) tasks rs \<Longrightarrow> pool_map worker tasks = Return rs"
  by (induction tasks rs rule: list_all2_induct) auto

lemma pool_map_Raise:
  "pool_map worker tasks = Raise e \<Longrightarrow> \<exists>t \<in> set tasks. worker t = Raise e"
  by (induction tasks) (auto split: outcome.splits)

lemma in_pool_Return: "in_pool worker t = Return r \<longleftrightarrow> worker t = Return r"
  by (simp add: in_pool_def split: outcome.splits)

lemma in_pool_Hang:
  "in_pool worker t = Hang \<longleftrightarrow> worker t = Hang \<or> (\<exists>e. worker t = Raise e \<and> \<not> is_Exception e)"
  by (simp add: in_pool_def split: outcome.splits)

lemma pool_map_in_pool_Return:
  "pool_map (in_pool worker) tasks = Return rs \<longleftrightarrow> pool_map worker tasks = Return rs"
proof
  assume "pool_map (in_pool worker) tasks = Return rs"
  then have "list_all2 (\<lambda>t r. in_pool worker t = Return r) tasks rs"
    by (rule pool_map_ReturnD)
  then have "list_all2 (\<lambda>t r. worker t = Return r) tasks rs"
    by (simp add: in_pool_Return)
  then show "pool_map worker tasks = Return rs"
    by (rule pool_map_ReturnI)
next
  assume "pool_map worker tasks = Return rs"
  then have "list_all2 (\<lambda>t r. worker t = Return r) tasks rs"
    by (rule pool_map_ReturnD)
  then have "list_all2 (\<lambda>t r. in_pool worker t = Return r) tasks rs"
    by (simp add: in_pool_Return)
  then show "pool_map (in_pool worker) tasks = Return rs"
    by (rule pool_map_ReturnI)
qed

lemma join_all_Hang: "join_all threads = Hang \<longleftrightarrow> Hang \<in> set threads"
  by (induction threads) (auto split: outcome.splits)

lemma join_all_not_Raise: "join_all threads \<noteq> Raise e"
  by (induction threads) (auto split: outcome.splits)

lemma hanging_run_single_simulation:
  "run_single_simulation hanging_gnpy get_edfa_config power_dbm c =
     (if power_dbm = Some (Fl 0) then (Hang, 0)
      else run_single_simulation demo_gnpy get_edfa_config power_dbm c)"
proof -
  have l: "load_equipments_and_configs hanging_gnpy (equipment get_edfa_config) = Return ()"
    "load_network hanging_gnpy (topology get_edfa_config) ()
       = Return [Transceiver ''A'', Fiber ''span'', Transceiver ''B'']"
    by (simp_all add: hanging_gnpy_def demo_gnpy_def get_edfa_config_def)
  show ?thesis
    unfolding run_single_simulation_loaded[OF l] run_single_simulation_loaded[OF demo_loaded]
    by (simp add: hanging_gnpy_def demo_gnpy_def sbind_def lift_def first_two_def getitem_def)
qed

lemma thread_worker_Hang:
  "fst (thread_worker G config power_dbm index s) = Hang
     \<longleftrightarrow> fst (run_single_simulation G config power_dbm (shared_dict s)) = Hang"
proof (cases rule: loaders_cases[of G config])
  case (loaded eqpt network)
  show ?thesis
    unfolding thread_worker_loaded[OF loaded]
    by (auto simp: Let_def split: prod.splits outcome.splits)
next
  case (raised e)
  show ?thesis
    unfolding thread_worker_not_loaded[OF raised] worker_try_not_loaded(2)[OF raised]
    by simp
next
  case hangs
  then have "run_single_simulation G config power_dbm (shared_dict s) = (Hang, shared_dict s)"
    unfolding run_single_simulation_def
    by (auto simp: bind_def lift_def split: outcome.splits)
  then show ?thesis
    unfolding worker_try_loader_hangs[OF hangs] by simp
qed

lemma range_workers: "[0..<NUM_WORKERS] = [0, 1, 2, 3]" "[0..<4] = [0, 1, 2, 3]"
  by (simp_all add: NUM_WORKERS_def upt_conv_Cons)

section \<open>The verification loops compute conjunctions\<close>

lemma worker_status_values:
  "worker_status reference result = Return status \<Longrightarrow> status = ''PASS'' \<or> status = ''FAIL''"
  unfolding worker_status_def by (auto simp: bind_def split: outcome.splits if_splits)

lemma all_match_loop_conj:
  assumes "\<forall>r \<in> set results. \<exists>status. worker_status reference r = Return status"
  shows "all_match_loop reference results acc =
           Return (acc \<and> (\<forall>r \<in> set results. worker_status reference r = Return ''PASS''))"
  using assms
proof (induction results arbitrary: acc)
  case Nil
  then show ?case by simp
next
  case (Cons r results)
  then obtain status where st: "worker_status reference r = Return status"
    by auto
  then have "status = ''PASS'' \<or> status = ''FAIL''"
    by (rule worker_status_values)
  with Cons st show ?case by auto
qed

lemma diff_match_loop_conj:
  assumes "\<forall>(r, f) \<in> set pairs.
             \<exists>b. allclose (gsnr_values r) (gsnr_values f) (1 / 10 ^ 6) = Return b"
  shows "diff_match_loop pairs acc =
           Return (acc \<and> (\<forall>(r, f) \<in> set pairs.
                     allclose (gsnr_values r) (gsnr_values f) (1 / 10 ^ 6) = Return True))"
  using assms
proof (induction pairs arbitrary: acc)
  case Nil
  then show ?case by simp
next
  case (Cons pair pairs)
  obtain r f where pair: "pair = (r, f)" by (cases pair)
  with Cons.prems obtain b where
    "allclose (gsnr_values r) (gsnr_values f) (1 / 10 ^ 6) = Return b"
    by auto
  with Cons pair show ?case by auto
qed

lemma same_param_loop_conj:
  assumes "\<forall>i \<in> set idx. \<forall>r. registry i = Some (Result r) \<longrightarrow>
             (\<exists>b. allclose (gsnr_values r) (gsnr_values reference) (1 / 10 ^ 4) = Return b)"
  shows "same_param_loop reference registry idx acc =
           Return (acc \<and> (\<forall>i \<in> set idx. \<exists>r. registry i = Some (Result r)
                     \<and> allclose (gsnr_values r) (gsnr_values reference) (1 / 10 ^ 4)
                         = Return True))"
  using assms
proof (induction idx arbitrary: acc)
  case Nil
  then show ?case by simp
next
  case (Cons i idx)
  show ?case
  proof (cases "registry i")
    case None
    with Cons show ?thesis by simp
  next
    case (Some e)
    show ?thesis
    proof (cases e)
      case (Error msg)
      with Some Cons show ?thesis by simp
    next
      case (Result r)
      with Some Cons.prems obtain b where
        "allclose (gsnr_values r) (gsnr_values reference) (1 / 10 ^ 4) = Return b"
        by auto
      with Result Some Cons show ?thesis by auto
    qed
  qed
qed

lemma diff_param_loop_conj:
  assumes "\<forall>i \<in> set idx. i < length references_diff"
      and "\<forall>i \<in> set idx. \<forall>r. registry i = Some (Result r) \<longrightarrow>
             (\<exists>b. allclose (gsnr_values r) (gsnr_values (references_diff ! i)) (1 / 10 ^ 4)
                     = Return b)"
  shows "diff_param_loop references_diff registry idx acc =
           Return (acc \<and> (\<forall>i \<in> set idx. \<exists>r. registry i = Some (Result r)
                     \<and> allclose (gsnr_values r) (gsnr_values (references_diff ! i)) (1 / 10 ^ 4)
                         = Return True))"
  using assms
proof (induction idx arbitrary: acc)
  case Nil
  then show ?case by simp
next
  case (Cons i idx)
  then have i: "getitem references_diff i = Return (references_diff ! i)"
    by (simp add: getitem_def)
  show ?case
  proof (cases "registry i")
    case None
    with Cons show ?thesis by simp
  next
    case (Some e)
    show ?thesis
    proof (cases e)
      case (Error msg)
      with Some Cons show ?thesis by simp
    next
      case (Result r)
      with Some Cons.prems obtain b where
        "allclose (gsnr_values r) (gsnr_values (references_diff ! i)) (1 / 10 ^ 4) = Return b"
        by auto
      with Result Some Cons i show ?thesis by auto
    qed
  qed
qed

lemma process_verdict:
  assumes "run_single_simulation G get_edfa_config None c = (Return reference, c1)"
      and "pool_map (process_worker G fresh) (replicate NUM_WORKERS (get_edfa_config, None))
             = Return results"
      and "pool_map (process_worker G fresh) (map (\<lambda>p. (get_edfa_config, Some p)) powers)
             = Return results_diff"
      and "references_loop G get_edfa_config powers [] c1 = (Return references_diff, c2)"
      and "\<forall>r \<in> set results. \<exists>status. worker_status reference r = Return status"
      and "\<forall>(r, f) \<in> set (zip results_diff references_diff).
             \<exists>b. allclose (gsnr_values r) (gsnr_values f) (1 / 10 ^ 6) = Return b"
  shows "test_process_pool_isolation G fresh c =
           (Return ((\<forall>r \<in> set results. worker_status reference r = Return ''PASS'')
                    \<and> (\<forall>(r, f) \<in> set (zip results_diff references_diff).
                          allclose (gsnr_values r) (gsnr_values f) (1 / 10 ^ 6) = Return True)),
            c2)"
proof -
  have pools:
    "pool_map (in_pool (process_worker G fresh)) (replicate NUM_WORKERS (get_edfa_config, None))
       = Return results"
    "pool_map (in_pool (process_worker G fresh)) (map (\<lambda>p. (get_edfa_config, Some p)) powers)
       = Return results_diff"
    using assms(2,3) by (simp_all add: pool_map_in_pool_Return)
  show ?thesis
    unfolding test_process_pool_isolation_def Let_def
    by (simp add: sbind_def assms(1,4) pools all_match_loop_conj[OF assms(5)]
                  diff_match_loop_conj[OF assms(6)] lift_def)
qed

lemma thread_verdict:
  assumes "run_single_simulation G get_edfa_config None c = (Return reference, c1)"
      and "batch get_edfa_config (map (\<lambda>i. (i, None)) [0..<NUM_WORKERS]) c1
             = (Return registry, c2)"
      and "batch get_edfa_config (zip [0..<length powers] (map Some powers)) c2
             = (Return registry_diff, c3)"
      and "references_loop G get_edfa_config powers [] c3 = (Return references_diff, c4)"
      and "\<forall>i < NUM_WORKERS. \<forall>r. registry i = Some (Result r) \<longrightarrow>
             (\<exists>b. allclose (gsnr_values r) (gsnr_values reference) (1 / 10 ^ 4) = Return b)"
      and "\<forall>i < NUM_WORKERS. \<forall>r. registry_diff i = Some (Result r) \<longrightarrow>
             (\<exists>b. allclose (gsnr_values r) (gsnr_values (references_diff ! i)) (1 / 10 ^ 4)
                     = Return b)"
  shows "test_deep_copy_thread_local G batch c =
           (Return ((\<forall>i < NUM_WORKERS. \<exists>r. registry i = Some (Result r)
                       \<and> allclose (gsnr_values r) (gsnr_values reference) (1 / 10 ^ 4)
                           = Return True)
                    \<and> (\<forall>i < NUM_WORKERS. \<exists>r. registry_diff i = Some (Result r)
                       \<and> allclose (gsnr_values r) (gsnr_values (references_diff ! i))
                            (1 / 10 ^ 4) = Return True)),
            c4)"
proof -
  have len: "length references_diff = NUM_WORKERS"
    using references_loop_length[OF assms(4)] by (simp add: powers_eq NUM_WORKERS_def)
  have s: "same_param_loop reference registry [0..<NUM_WORKERS] True =
      Return (\<forall>i < NUM_WORKERS. \<exists>r. registry i = Some (Result r)
                \<and> allclose (gsnr_values r) (gsnr_values reference) (1 / 10 ^ 4) = Return True)"
    using same_param_loop_conj[of "[0..<NUM_WORKERS]" registry reference True] assms(5)
    by auto
  have d: "diff_param_loop references_diff registry_diff [0..<NUM_WORKERS] True =
      Return (\<forall>i < NUM_WORKERS. \<exists>r. registry_diff i = Some (Result r)
                \<and> allclose (gsnr_values r) (gsnr_values (references_diff ! i)) (1 / 10 ^ 4)
                    = Return True)"
    using diff_param_loop_conj[of "[0..<NUM_WORKERS]" references_diff registry_diff True]
      assms(6) len
    by auto
  show ?thesis
    unfolding test_deep_copy_thread_local_def Let_def
    by (simp add: sbind_def assms(1-4) s d lift_def)
qed

section \<open>The two tests on the example engines\<close>

lemma demo_run: "run_single_simulation demo_gnpy get_edfa_config None c = (Return (demo_result 0), 2)"
  "run_single_simulation demo_gnpy get_edfa_config (Some (Fl p)) c = (Return (demo_result p), 2)"
  by (simp_all add: demo_run_single_simulation demo_result_def)

lemma blind_run:
  "run_single_simulation blind_gnpy get_edfa_config power_dbm c = (Return (demo_result 0), 2)"
proof -
  have l: "load_equipments_and_configs blind_gnpy (equipment get_edfa_config) = Return ()"
    "load_network blind_gnpy (topology get_edfa_config) ()
       = Return [Transceiver ''A'', Fiber ''span'', Transceiver ''B'']"
    by (simp_all add: blind_gnpy_def demo_gnpy_def get_edfa_config_def)
  show ?thesis
    unfolding run_single_simulation_loaded[OF l]
    by (simp add: blind_gnpy_def demo_gnpy_def sbind_def lift_def first_two_def getitem_def
                  getitem_last_def result_of_def np_mean_def demo_result_def)
qed

lemma demo_pools:
  "pool_map (process_worker demo_gnpy c) (replicate NUM_WORKERS (get_edfa_config, None))
     = Return [demo_result 0, demo_result 0, demo_result 0, demo_result 0]"
  "pool_map (process_worker demo_gnpy c) (map (\<lambda>p. (get_edfa_config, Some p)) powers)
     = Return [demo_result (- 2), demo_result (- 1), demo_result 0, demo_result 1]"
  by (simp_all add: NUM_WORKERS_def numeral_eq_Suc powers_def process_worker_def demo_run)

lemma blind_pools:
  "pool_map (process_worker blind_gnpy c) (replicate NUM_WORKERS (get_edfa_config, None))
     = Return [demo_result 0, demo_result 0, demo_result 0, demo_result 0]"
  "pool_map (process_worker blind_gnpy c) (map (\<lambda>p. (get_edfa_config, Some p)) powers)
     = Return [demo_result 0, demo_result 0, demo_result 0, demo_result 0]"
  by (simp_all add: NUM_WORKERS_def numeral_eq_Suc powers_def process_worker_def blind_run)

lemma demo_references:
  "references_loop demo_gnpy get_edfa_config powers [] c
     = (Return [demo_result (- 2), demo_result (- 1), demo_result 0, demo_result 1], 2)"
  by (simp add: powers_eq demo_run)

lemma blind_references:
  "references_loop blind_gnpy get_edfa_config powers [] c
     = (Return [demo_result 0, demo_result 0, demo_result 0, demo_result 0], 2)"
  by (simp add: powers_eq blind_run)

lemma allclose_demo_result:
  assumes "0 \<le> atol"
  shows "allclose (gsnr_values (demo_result p)) (gsnr_values (demo_result p)) atol = Return True"
    and "allclose (osnr_values (demo_result p)) (osnr_values (demo_result p)) atol = Return True"
  using assms by (simp_all add: demo_result_def allclose_def isclose_def rtol_default_def)

lemma worker_status_demo_result:
  "worker_status (demo_result p) (demo_result p) = Return ''PASS''"
  by (simp add: worker_status_def allclose_demo_result)

lemma demo_batches:
  "sequential_batch demo_gnpy get_edfa_config (map (\<lambda>i. (i, None)) [0..<NUM_WORKERS]) c
     = (Return [0 \<mapsto> Result (demo_result 0), 1 \<mapsto> Result (demo_result 0),
                2 \<mapsto> Result (demo_result 0), 3 \<mapsto> Result (demo_result 0)], c)"
  "sequential_batch demo_gnpy get_edfa_config (zip [0..<length powers] (map Some powers)) c
     = (Return [0 \<mapsto> Result (demo_result (- 2)), 1 \<mapsto> Result (demo_result (- 1)),
                2 \<mapsto> Result (demo_result 0), 3 \<mapsto> Result (demo_result 1)], c)"
  unfolding sequential_batch_def
  by (simp_all add: range_workers powers_eq thread_worker_loaded[OF demo_loaded] demo_run
                    numeral_2_eq_2 numeral_3_eq_3)

section \<open>Closeness of two series\<close>

lemma isclose_Fl: "isclose atol (Fl x) (Fl y) \<longleftrightarrow> \<bar>x - y\<bar> \<le> atol + \<bar>y\<bar> / 10 ^ 5"
  by (simp add: isclose_def rtol_default_def)

lemma isclose_NaN: "\<not> isclose atol NaN b" "\<not> isclose atol a NaN"
proof -
  show "\<not> isclose atol NaN b" by (cases b) (simp_all add: isclose_def)
  show "\<not> isclose atol a NaN" by (cases a) (simp_all add: isclose_def)
qed

lemma isclose_refl: "0 \<le> atol \<Longrightarrow> isclose atol x x \<longleftrightarrow> \<not> is_nan x"
  by (cases x) (simp_all add: isclose_Fl isclose_NaN)

lemma allclose_same_length:
  "length a = length b \<Longrightarrow> allclose a b atol = Return (list_all2 (isclose atol) a b)"
  by (simp add: allclose_def)

lemma allclose_refl:
  "0 \<le> atol \<Longrightarrow> allclose xs xs atol = Return (\<forall>x \<in> set xs. \<not> is_nan x)"
  by (simp add: allclose_def list_all2_same isclose_refl)

lemma worker_status_same_length:
  assumes "length (gsnr_values result) = length (gsnr_values reference)"
      and "length (osnr_values result) = length (osnr_values reference)"
  shows "worker_status reference result =
           Return (if list_all2 (isclose (1 / 10 ^ 6)) (gsnr_values result) (gsnr_values reference)
                      \<and> list_all2 (isclose (1 / 10 ^ 6)) (osnr_values result)
                            (osnr_values reference)
                   then ''PASS'' else ''FAIL'')"
  unfolding worker_status_def
  by (simp add: allclose_same_length[OF assms(1)] allclose_same_length[OF assms(2)])

section \<open>A batch of one Job\<close>

text \<open>
  When \<open>SimParams.set_params({})\<close> replaces the shared dictionary wholesale, what a
  simulation returns does not depend on the shared dictionary it starts from.
\<close>

lemma run_single_simulation_any_store:
  assumes "\<forall>c c'. set_params G (JObj []) c = set_params G (JObj []) c'"
  shows "fst (run_single_simulation G config power_dbm c)
           = fst (run_single_simulation G config power_dbm c')"
proof (cases rule: loaders_cases[of G config])
  case (loaded eqpt network)
  have "set_params G (JObj []) c = set_params G (JObj []) c'"
    using assms by blast
  then show ?thesis
    unfolding run_single_simulation_loaded[OF loaded]
    by (simp add: sbind_def)
next
  case (raised e)
  then show ?thesis
    by (simp add: worker_try_not_loaded(2))
next
  case hangs
  then show ?thesis
    unfolding run_single_simulation_def
    by (auto simp: bind_def lift_def split: outcome.splits)
qed

lemma run_single_simulation_Return_loaded:
  assumes "fst (run_single_simulation G config power_dbm c) = Return r"
  obtains eqpt network where
    "load_equipments_and_configs G (equipment config) = Return eqpt"
    "load_network G (topology config) eqpt = Return network"
proof (cases rule: loaders_cases[of G config])
  case (loaded eqpt network)
  then show ?thesis by (rule that)
next
  case (raised e)
  with assms show ?thesis
    by (simp add: worker_try_not_loaded(2))
next
  case hangs
  with assms show ?thesis
    unfolding run_single_simulation_def
    by (auto simp: bind_def lift_def split: outcome.splits)
qed

lemma sequential_batch_single:
  assumes "fst (run_single_simulation G config power_dbm c) = Return r"
  shows "sequential_batch G config [(index, power_dbm)] c = (Return [index \<mapsto> Result r], c)"
proof -
  obtain eqpt network where l:
    "load_equipments_and_configs G (equipment config) = Return eqpt"
    "load_network G (topology config) eqpt = Return network"
    using assms by (rule run_single_simulation_Return_loaded)
  obtain c' where "run_single_simulation G config power_dbm c = (Return r, c')"
    using assms by (cases "run_single_simulation G config power_dbm c") auto
  then show ?thesis
    unfolding sequential_batch_def
    by (simp add: thread_worker_loaded[OF l])
qed

section \<open>Properties of \<open>_fmt\<close>\<close>

lemma clean_filter: "filter (\<lambda>v. feq v v) values = filter (\<lambda>v. \<not> is_nan v) values"
proof -
  have "feq v v = (\<not> is_nan v)" for v by (cases v) auto
  then show ?thesis by simp
qed

lemma fmt_clean:
  assumes "clean = filter (\<lambda>v. \<not> is_nan v) values"
  shows "fmt ffmt values =
    (if clean = [] then Return ''N/A''
     else let mu = sum_list (map the_real clean) / real (length clean) in
       if length clean > 1
       then Return (ffmt 8 (Fl (mu * 1000)) @ '' +/- '' @
              ffmt 6 (Fl (sqrt (sum_list (map (\<lambda>x. (the_real x - mu)\<^sup>2) clean)
                                  / real (length clean - 1)) * 1000)) @ '' ms'')
       else Return (ffmt 8 (Fl (mu * 1000)) @ '' ms''))"
proof -
  have "\<not> (\<exists>x \<in> set clean. is_nan x)" using assms by auto
  then show ?thesis
    unfolding fmt_def clean_filter assms[symmetric]
    by (auto simp: Let_def bind_def statistics_mean_def statistics_stdev_def)
qed

lemma ms_not_na: "xs @ '' ms'' \<noteq> ''N/A''"
proof
  assume "xs @ '' ms'' = ''N/A''"
  then have "last (xs @ '' ms'') = last ''N/A''" by simp
  then show False by simp
qed

text \<open>
  C10. \<open>_fmt\<close> returns \<open>"N/A"\<close> exactly when the list is empty or every entry is NaN. The
  NaN entries never contribute: the result is the result on the list without them, and when
  an entry is not NaN the reported mean is the mean of the entries that are not NaN, with
  their sample standard deviation when there is more than one.
\<close>

theorem fmt_na_iff_and_nan_ignored:
  "(fmt ffmt values = Return ''N/A'' \<longleftrightarrow> (\<forall>v \<in> set values. is_nan v))
   \<and> fmt ffmt values = fmt ffmt (filter (\<lambda>v. \<not> is_nan v) values)
   \<and> (\<forall>clean. clean = map the_real (filter (\<lambda>v. \<not> is_nan v) values) \<and> clean \<noteq> [] \<longrightarrow>
        fmt ffmt values =
          (let mu = sum_list clean / real (length clean) in
           if length clean > 1
           then Return (ffmt 8 (Fl (mu * 1000)) @ '' +/- '' @
                  ffmt 6 (Fl (sqrt (sum_list (map (\<lambda>x. (x - mu)\<^sup>2) clean)
                                      / real (length clean - 1)) * 1000)) @ '' ms'')
           else Return (ffmt 8 (Fl (mu * 1000)) @ '' ms'')))"
proof (intro conjI allI impI)
  let ?clean = "filter (\<lambda>v. \<not> is_nan v) values"
  have all_nan: "(?clean = []) = (\<forall>v \<in> set values. is_nan v)"
    by (simp add: filter_empty_conv)
  show "fmt ffmt values = Return ''N/A'' \<longleftrightarrow> (\<forall>v \<in> set values. is_nan v)"
    unfolding all_nan[symmetric] fmt_clean[OF refl, of ffmt "values"]
    by (simp add: Let_def ms_not_na)
  show "fmt ffmt values = fmt ffmt ?clean"
    unfolding fmt_clean[OF refl, of ffmt "values"] fmt_clean[OF refl, of ffmt ?clean]
    by (simp add: Let_def)
  fix clean
  assume c: "clean = map the_real ?clean \<and> clean \<noteq> []"
  have sq: "map (\<lambda>x. (the_real x - m)\<^sup>2) ?clean = map (\<lambda>x. (x - m)\<^sup>2) (map the_real ?clean)" for m
    by (simp add: comp_def)
  show "fmt ffmt values =
          (let mu = sum_list clean / real (length clean) in
           if length clean > 1
           then Return (ffmt 8 (Fl (mu * 1000)) @ '' +/- '' @
                  ffmt 6 (Fl (sqrt (sum_list (map (\<lambda>x. (x - mu)\<^sup>2) clean)
                                      / real (length clean - 1)) * 1000)) @ '' ms'')
           else Return (ffmt 8 (Fl (mu * 1000)) @ '' ms''))"
    unfolding fmt_clean[OF refl, of ffmt "values"] sq
    using c by (auto simp add: Let_def)
qed

theorem fmt_na_iff_and_nan_ignored_witness:
  "fmt (\<lambda>w x. ''t'') [NaN, NaN] = Return ''N/A''
   \<and> fmt (\<lambda>w x. ''t'') [Fl 2, NaN] \<noteq> Return ''N/A''
   \<and> fmt (\<lambda>w x. ''t'') [Fl 2, NaN, Fl 4] = fmt (\<lambda>w x. ''t'') [Fl 2, Fl 4]
   \<and> fmt (\<lambda>w x. ''t'') [Fl 2, NaN] = Return ''t ms''"
  using fmt_na_iff_and_nan_ignored[of "\<lambda>w x. ''t''" "[NaN, NaN]"]
        fmt_na_iff_and_nan_ignored[of "\<lambda>w x. ''t''" "[Fl 2, NaN]"]
        fmt_na_iff_and_nan_ignored[of "\<lambda>w x. ''t''" "[Fl 2, NaN, Fl 4]"]
  by (simp add: fmt_def bind_def statistics_mean_def statistics_stdev_def)


section \<open>Fewer than two transceivers\<close>

lemma benchmark_run_few:
  assumes "source config = None \<or> destination config = None"
      and "load_equipments_and_configs G (equipment config) = Return eqpt"
      and "load_network G (topology config) eqpt = Return network"
      and "length (find_transceivers G network) < 2"
  shows "benchmark_run G clock config run results c =
     sbind (case sim_params config of
              Some file \<Rightarrow> lift (load_json G file)
            | None \<Rightarrow> lift (Return (JObj [])))
       (\<lambda>params. sbind (set_params G params) (\<lambda>_. lift (Return (Exit
          (results\<lparr>equipment_load := equipment_load results @ [Fl (clock run 0)],
                    network_load := network_load results @ [Fl (clock run 1)]\<rparr>))))) c"
  unfolding benchmark_run_def time_it_def
  using assms by (auto simp add: Let_def split: option.splits)

lemma benchmark_network_few:
  assumes "source config = None \<or> destination config = None"
      and "load_equipments_and_configs G (equipment config) = Return eqpt"
      and "load_network G (topology config) eqpt = Return network"
      and "length (find_transceivers G network) < 2"
  shows "benchmark_network G clock name config c =
     sbind (case sim_params config of
              Some file \<Rightarrow> lift (load_json G file)
            | None \<Rightarrow> lift (Return (JObj [])))
       (\<lambda>params. sbind (set_params G params) (\<lambda>_. lift (Return
          \<lparr>equipment_load = [Fl (clock 0 0)], network_load = [Fl (clock 0 1)],
           network_design = [], transmission_sim = []\<rparr>))) c"
proof -
  have "[0..<NUM_RUNS] = 0 # [1..<NUM_RUNS]"
    by (simp add: NUM_RUNS_def upt_conv_Cons)
  then show ?thesis
    unfolding benchmark_network_def
    by (simp add: benchmark_run_few[OF assms] sbind_def lift_def
             split: option.splits prod.splits outcome.splits)
qed

lemma run_single_simulation_few:
  assumes "load_equipments_and_configs G (equipment cfg) = Return eqpt"
      and "load_network G (topology cfg) eqpt = Return network"
      and "length (find_transceivers G network) < 2"
  shows "run_single_simulation G cfg p c =
     sbind (set_params G (JObj []))
       (\<lambda>_. lift (Raise (Exn ''IndexError'' ''list index out of range''))) c"
  using assms first_two_short[of "find_transceivers G network"]
  unfolding run_single_simulation_def find_transceivers_def
  by simp

lemma benchmark_run_enough:
  assumes "source config = None \<or> destination config = None"
      and "load_equipments_and_configs G (equipment config) = Return eqpt"
      and "load_network G (topology config) eqpt = Return network"
      and "\<not> length (find_transceivers G network) < 2"
  shows "benchmark_run G clock config run results c =
     sbind (case sim_params config of
              Some file \<Rightarrow> lift (load_json G file)
            | None \<Rightarrow> lift (Return (JObj [])))
       (\<lambda>params. sbind (set_params G params) (\<lambda>_.
          design_and_simulate G clock run eqpt network
            (case source config of
               None \<Rightarrow> find_transceivers G network ! 0
             | Some src \<Rightarrow> if src = [] then find_transceivers G network ! 0 else src)
            (case destination config of
               None \<Rightarrow> find_transceivers G network ! 1
             | Some dst \<Rightarrow> if dst = [] then find_transceivers G network ! 1 else dst)
            (results\<lparr>equipment_load := equipment_load results @ [Fl (clock run 0)],
                      network_load := network_load results @ [Fl (clock run 1)]\<rparr>))) c"
  unfolding benchmark_run_def time_it_def
  using assms
  by (auto simp add: Let_def or_getitem_def getitem_def split: option.splits
           intro!: arg_cong[where f = "\<lambda>k. sbind _ k c"] arg_cong[where f = "sbind _"])

text \<open>
  C8. Let the source or the destination be not preset, and let the loaders return. When
  the loaded network has fewer than two transceivers, \<open>benchmark_network\<close> returns in its
  first run: the lists \<open>network_design\<close> and \<open>transmission_sim\<close> of what it returns are
  empty, the result does not depend on \<open>designed_network\<close> and \<open>transmission_simulation\<close>
  (they are not called), and when the parameters are set without an exception the result
  holds one timing of each loader. When the network has two transceivers or more, every run
  of \<open>benchmark_network\<close> goes on, once the parameters are set, to the design and the
  simulation between the transceivers it read at the indices 0 and 1 (or the preset one):
  the reads \<open>trx_uids[0]\<close> and \<open>trx_uids[1]\<close> raise nothing. On the files of a network with
  fewer than two transceivers \<open>_run_single_simulation\<close> never returns a result: it raises
  \<open>IndexError\<close> once \<open>SimParams.set_params\<close> has returned.
\<close>

theorem benchmark_reads_transceivers_in_bounds_single_run_does_not:
  assumes "source config = None \<or> destination config = None"
      and "load_equipments_and_configs G (equipment config) = Return eqpt"
      and "load_network G (topology config) eqpt = Return network"
  shows "(length (find_transceivers G network) < 2 \<longrightarrow>
          (\<forall>results c'. benchmark_network G clock name config c = (Return results, c') \<longrightarrow>
             network_design results = [] \<and> transmission_sim results = [])
          \<and> (\<forall>d t. benchmark_network (G\<lparr>designed_network := d, transmission_simulation := t\<rparr>)
                     clock name config c
                   = benchmark_network G clock name config c)
          \<and> (\<forall>params c'.
               (case sim_params config of Some file \<Rightarrow> load_json G file | None \<Rightarrow> Return (JObj []))
                 = Return params
               \<and> set_params G params c = (Return (), c') \<longrightarrow>
               benchmark_network G clock name config c =
                 (Return \<lparr>equipment_load = [Fl (clock 0 0)], network_load = [Fl (clock 0 1)],
                          network_design = [], transmission_sim = []\<rparr>, c'))
          \<and> (\<forall>cfg p c0. equipment cfg = equipment config \<and> topology cfg = topology config \<longrightarrow>
               (\<forall>r. fst (run_single_simulation G cfg p c0) \<noteq> Return r)
               \<and> (fst (set_params G (JObj []) c0) = Return () \<longrightarrow>
                    fst (run_single_simulation G cfg p c0)
                      = Raise (Exn ''IndexError'' ''list index out of range''))))
       \<and> (\<not> length (find_transceivers G network) < 2 \<longrightarrow>
          (\<forall>run results c1.
             benchmark_run G clock config run results c1 =
               sbind (case sim_params config of
                        Some file \<Rightarrow> lift (load_json G file)
                      | None \<Rightarrow> lift (Return (JObj [])))
                 (\<lambda>params. sbind (set_params G params) (\<lambda>_.
                    design_and_simulate G clock run eqpt network
                      (case source config of
                         None \<Rightarrow> find_transceivers G network ! 0
                       | Some src \<Rightarrow> if src = [] then find_transceivers G network ! 0 else src)
                      (case destination config of
                         None \<Rightarrow> find_transceivers G network ! 1
                       | Some dst \<Rightarrow> if dst = [] then find_transceivers G network ! 1 else dst)
                      (results\<lparr>equipment_load := equipment_load results @ [Fl (clock run 0)],
                                network_load := network_load results @ [Fl (clock run 1)]\<rparr>)))
                 c1))"
proof (intro conjI allI impI)
  assume few: "length (find_transceivers G network) < 2"
  note assms' = assms few
  note net = benchmark_network_few[OF assms']
  {
    fix results c'
    assume "benchmark_network G clock name config c = (Return results, c')"
    then have r: "results = \<lparr>equipment_load = [Fl (clock 0 0)], network_load = [Fl (clock 0 1)],
                              network_design = [], transmission_sim = []\<rparr>"
      unfolding net
      by (auto simp: sbind_def lift_def split: option.splits prod.splits outcome.splits)
    show "network_design results = []" by (simp add: r)
    show "transmission_sim results = []" by (simp add: r)
  }
  {
    fix d t
    let ?G = "G\<lparr>designed_network := d, transmission_simulation := t\<rparr>"
    have "benchmark_network ?G clock name config c =
       sbind (case sim_params config of
                Some file \<Rightarrow> lift (load_json ?G file)
              | None \<Rightarrow> lift (Return (JObj [])))
         (\<lambda>params. sbind (set_params ?G params) (\<lambda>_. lift (Return
            \<lparr>equipment_load = [Fl (clock 0 0)], network_load = [Fl (clock 0 1)],
             network_design = [], transmission_sim = []\<rparr>))) c"
      by (rule benchmark_network_few[of config ?G eqpt network])
         (use assms' in \<open>simp_all add: find_transceivers_def\<close>)
    then show "benchmark_network ?G clock name config c = benchmark_network G clock name config c"
      unfolding net by (simp split: option.splits)
  }
  {
    fix params c'
    assume "(case sim_params config of Some file \<Rightarrow> load_json G file | None \<Rightarrow> Return (JObj []))
                = Return params
              \<and> set_params G params c = (Return (), c')"
    then show "benchmark_network G clock name config c =
                (Return \<lparr>equipment_load = [Fl (clock 0 0)], network_load = [Fl (clock 0 1)],
                         network_design = [], transmission_sim = []\<rparr>, c')"
      unfolding net
      by (auto simp: sbind_def lift_def split: option.splits)
  }
  {
    fix cfg :: sim_config and p c0 r
    assume same: "equipment cfg = equipment config \<and> topology cfg = topology config"
    have run: "run_single_simulation G cfg p c0 =
       sbind (set_params G (JObj []))
         (\<lambda>_. lift (Raise (Exn ''IndexError'' ''list index out of range''))) c0"
      by (rule run_single_simulation_few[of G cfg eqpt network]) (use assms' same in simp_all)
    show "fst (run_single_simulation G cfg p c0) \<noteq> Return r"
      unfolding run
      by (auto simp: sbind_def lift_def split: prod.splits outcome.splits)
    assume "fst (set_params G (JObj []) c0) = Return ()"
    then show "fst (run_single_simulation G cfg p c0)
                     = Raise (Exn ''IndexError'' ''list index out of range'')"
      unfolding run
      by (auto simp: sbind_def lift_def split: prod.splits outcome.splits)
  }
next
  fix run results c1
  assume enough: "\<not> length (find_transceivers G network) < 2"
  show "benchmark_run G clock config run results c1 =
               sbind (case sim_params config of
                        Some file \<Rightarrow> lift (load_json G file)
                      | None \<Rightarrow> lift (Return (JObj [])))
                 (\<lambda>params. sbind (set_params G params) (\<lambda>_.
                    design_and_simulate G clock run eqpt network
                      (case source config of
                         None \<Rightarrow> find_transceivers G network ! 0
                       | Some src \<Rightarrow> if src = [] then find_transceivers G network ! 0 else src)
                      (case destination config of
                         None \<Rightarrow> find_transceivers G network ! 1
                       | Some dst \<Rightarrow> if dst = [] then find_transceivers G network ! 1 else dst)
                      (results\<lparr>equipment_load := equipment_load results @ [Fl (clock run 0)],
                                network_load := network_load results @ [Fl (clock run 1)]\<rparr>)))
                 c1"
    by (rule benchmark_run_enough[OF assms enough])
qed

theorem benchmark_reads_transceivers_in_bounds_single_run_does_not_witness:
  "source one_transceiver_config = None
   \<and> load_equipments_and_configs demo_gnpy (equipment one_transceiver_config) = Return ()
   \<and> load_network demo_gnpy (topology one_transceiver_config) ()
        = Return [Transceiver ''A'', Fiber ''span'']
   \<and> length (find_transceivers demo_gnpy [Transceiver ''A'', Fiber ''span'']) < 2
   \<and> benchmark_network demo_gnpy (\<lambda>run k. 1 / 2) ''one'' one_transceiver_config 5
        = (Return \<lparr>equipment_load = [Fl (1 / 2)], network_load = [Fl (1 / 2)],
                   network_design = [], transmission_sim = []\<rparr>, 0)
   \<and> fst (run_single_simulation demo_gnpy
             \<lparr>topology = ''one_transceiver.json'', equipment = ''eqpt_config.json''\<rparr> None 5)
        = Raise (Exn ''IndexError'' ''list index out of range'')
   \<and> source two_transceiver_config = None
   \<and> load_network demo_gnpy (topology two_transceiver_config) ()
        = Return [Transceiver ''A'', Fiber ''span'', Transceiver ''B'']
   \<and> find_transceivers demo_gnpy [Transceiver ''A'', Fiber ''span'', Transceiver ''B'']
        = [''A'', ''B'']
   \<and> benchmark_run demo_gnpy (\<lambda>run k. 1 / 2) two_transceiver_config 0
         \<lparr>equipment_load = [], network_load = [], network_design = [], transmission_sim = []\<rparr> 5
        = design_and_simulate demo_gnpy (\<lambda>run k. 1 / 2) 0 ()
            [Transceiver ''A'', Fiber ''span'', Transceiver ''B''] ''A'' ''B''
            \<lparr>equipment_load = [Fl (1 / 2)], network_load = [Fl (1 / 2)],
             network_design = [], transmission_sim = []\<rparr> 0
   \<and> benchmark_run demo_gnpy (\<lambda>run k. 1 / 2) two_transceiver_config 0
         \<lparr>equipment_load = [], network_load = [], network_design = [], transmission_sim = []\<rparr> 5
        = (Return (Next \<lparr>equipment_load = [Fl (1 / 2)], network_load = [Fl (1 / 2)],
                         network_design = [Fl (1 / 2)], transmission_sim = [Fl (1 / 2)]\<rparr>), 2)"
proof -
  have h1: "source one_transceiver_config = None \<or> destination one_transceiver_config = None"
    by (simp add: one_transceiver_config_def)
  have h2: "load_equipments_and_configs demo_gnpy (equipment one_transceiver_config) = Return ()"
    by (simp add: demo_gnpy_def)
  have h3: "load_network demo_gnpy (topology one_transceiver_config) ()
              = Return [Transceiver ''A'', Fiber ''span'']"
    by (simp add: demo_gnpy_def one_transceiver_config_def)
  have h4: "length (find_transceivers demo_gnpy [Transceiver ''A'', Fiber ''span'']) < 2"
    by (simp add: demo_gnpy_def find_transceivers_def)
  note T = benchmark_reads_transceivers_in_bounds_single_run_does_not[OF h1 h2 h3,
             of "\<lambda>run k. 1 / 2" "''one''" 5, THEN conjunct1, rule_format, OF h4]
  have b: "benchmark_network demo_gnpy (\<lambda>run k. 1 / 2) ''one'' one_transceiver_config 5
        = (Return \<lparr>equipment_load = [Fl (1 / 2)], network_load = [Fl (1 / 2)],
                   network_design = [], transmission_sim = []\<rparr>, 0)"
    using T by (simp add: one_transceiver_config_def demo_gnpy_def)
  have r: "fst (run_single_simulation demo_gnpy
             \<lparr>topology = ''one_transceiver.json'', equipment = ''eqpt_config.json''\<rparr> None 5)
        = Raise (Exn ''IndexError'' ''list index out of range'')"
    using T by (simp add: one_transceiver_config_def demo_gnpy_def)
  have g1: "source two_transceiver_config = None \<or> destination two_transceiver_config = None"
    by (simp add: two_transceiver_config_def)
  have g2: "load_equipments_and_configs demo_gnpy (equipment two_transceiver_config) = Return ()"
    by (simp add: demo_gnpy_def)
  have g3: "load_network demo_gnpy (topology two_transceiver_config) ()
              = Return [Transceiver ''A'', Fiber ''span'', Transceiver ''B'']"
    by (simp add: demo_gnpy_def two_transceiver_config_def)
  have g4: "find_transceivers demo_gnpy [Transceiver ''A'', Fiber ''span'', Transceiver ''B'']
              = [''A'', ''B'']"
    by (simp add: demo_gnpy_def find_transceivers_def)
  have g5: "\<not> length (find_transceivers demo_gnpy
                        [Transceiver ''A'', Fiber ''span'', Transceiver ''B'']) < 2"
    by (simp add: g4)
  note U = benchmark_reads_transceivers_in_bounds_single_run_does_not[OF g1 g2 g3,
             of "\<lambda>run k. 1 / 2", THEN conjunct2, rule_format, OF g5]
  have e: "benchmark_run demo_gnpy (\<lambda>run k. 1 / 2) two_transceiver_config 0
         \<lparr>equipment_load = [], network_load = [], network_design = [], transmission_sim = []\<rparr> 5
        = design_and_simulate demo_gnpy (\<lambda>run k. 1 / 2) 0 ()
            [Transceiver ''A'', Fiber ''span'', Transceiver ''B''] ''A'' ''B''
            \<lparr>equipment_load = [Fl (1 / 2)], network_load = [Fl (1 / 2)],
             network_design = [], transmission_sim = []\<rparr> 0"
    unfolding U
    by (simp add: g4 two_transceiver_config_def)
       (simp add: demo_gnpy_def sbind_def lift_def)
  have d: "design_and_simulate demo_gnpy (\<lambda>run k. 1 / 2) 0 ()
            [Transceiver ''A'', Fiber ''span'', Transceiver ''B''] ''A'' ''B''
            \<lparr>equipment_load = [Fl (1 / 2)], network_load = [Fl (1 / 2)],
             network_design = [], transmission_sim = []\<rparr> 0
        = (Return (Next \<lparr>equipment_load = [Fl (1 / 2)], network_load = [Fl (1 / 2)],
                         network_design = [Fl (1 / 2)], transmission_sim = [Fl (1 / 2)]\<rparr>), 2)"
    by (simp add: design_and_simulate_def time_it_def demo_gnpy_def sbind_def lift_def)
  show ?thesis
    using h2 h3 h4 b r g3 g4 e d
    by (simp add: one_transceiver_config_def two_transceiver_config_def)
qed

section \<open>Backup and restore of the shared dictionary\<close>

text \<open>
  C7. For a thread worker that runs alone and ends, with or without an exception: the value of
  \<open>SimParams._shared_dict\<close> observed just after the restore step is the value observed just
  before the reset step, a worker that resets also restores, and the restore is its last
  step. In a thread that had no backup attribute the worker leaves the shared dictionary as
  it found it.
\<close>

theorem restore_gives_back_value_before_reset:
  assumes "thread_worker G config power_dbm index s = (r, s')"
      and "r \<noteq> Hang"
  shows "\<exists>evs. trace s' = trace s @ evs
           \<and> (\<forall>c c'. Reset c \<in> set evs \<and> Restore c' \<in> set evs \<longrightarrow> c' = c)
           \<and> (\<forall>c. Reset c \<in> set evs \<longrightarrow> Restore c \<in> set evs \<and> last evs = Restore c
                    \<and> shared_dict s' = c)
           \<and> (sim_params_backup s = None \<longrightarrow> shared_dict s' = shared_dict s)"
proof (cases rule: loaders_cases[of G config])
  case (loaded eqpt network)
  show ?thesis
    using assms unfolding thread_worker_loaded[OF loaded]
    by (auto simp: Let_def split: prod.splits outcome.splits if_splits)
next
  case (raised e)
  show ?thesis
    using assms unfolding thread_worker_not_loaded[OF raised]
    by (auto simp: restore_backup_def split: option.splits if_splits)
next
  case hangs
  show ?thesis
    using assms unfolding worker_try_loader_hangs[OF hangs] by simp
qed

theorem restore_gives_back_value_before_reset_witness:
  "thread_worker demo_gnpy get_edfa_config (Some (Fl 1)) 2 (fresh_thread 7) =
     (Return (),
      \<lparr>shared_dict = 7, sim_params_backup = Some 7,
       results_dict = [2 \<mapsto> Result \<lparr>avg_gsnr = Fl (39 / 2), avg_osnr = Fl 31,
                                     gsnr_values = [Fl 19, Fl 20], osnr_values = [Fl 31]\<rparr>],
       trace = [Backup, Reset 7, Acquire, Write 2, Release, Restore 7]\<rparr>)
   \<and> sim_params_backup (fresh_thread 7) = None
   \<and> shared_dict (fresh_thread 7) = 7"
proof -
  have ends: "Return () \<noteq> (Hang :: unit outcome)"
    by simp
  show ?thesis
    using restore_gives_back_value_before_reset[OF demo_thread_worker ends] demo_thread_worker
    by (simp add: fresh_thread_def)
qed

section \<open>How often the restore step runs\<close>

text \<open>
  C2, as the code has it. For a thread worker that ends, with or without an exception,
  started in a thread that has no backup attribute: the restore step runs exactly once when the backup was taken, that is
  when both loaders returned, and it does not run when a loader raised, which is before the
  backup. It never runs more than once, and it runs as often as the backup step.
\<close>

theorem restore_runs_once_iff_backup_taken:
  assumes "sim_params_backup s = None"
      and "thread_worker G config power_dbm index s = (r, s')"
      and "r \<noteq> Hang"
  shows "\<exists>evs. trace s' = trace s @ evs
           \<and> length (filter is_Restore evs) =
               (if \<exists>eqpt network. load_equipments_and_configs G (equipment config) = Return eqpt
                     \<and> load_network G (topology config) eqpt = Return network
                then 1 else 0)
           \<and> length (filter is_Restore evs) = length (filter (\<lambda>ev. ev = Backup) evs)"
proof (cases rule: loaders_cases[of G config])
  case (loaded eqpt network)
  then have ex: "\<exists>eqpt network. load_equipments_and_configs G (equipment config) = Return eqpt
                     \<and> load_network G (topology config) eqpt = Return network"
    by blast
  show ?thesis
    using assms(2,3) unfolding thread_worker_loaded[OF loaded] if_P[OF ex]
    by (auto simp: Let_def split: prod.splits outcome.splits if_splits)
next
  case (raised e)
  then have nex: "\<not> (\<exists>eqpt network. load_equipments_and_configs G (equipment config) = Return eqpt
                     \<and> load_network G (topology config) eqpt = Return network)"
    by (auto simp: bind_def)
  show ?thesis
    using assms unfolding thread_worker_not_loaded[OF raised] if_not_P[OF nex]
    by (auto simp: restore_backup_def split: if_splits)
next
  case hangs
  show ?thesis
    using assms unfolding worker_try_loader_hangs[OF hangs] by simp
qed

theorem restore_runs_once_iff_backup_taken_witness:
  "sim_params_backup (fresh_thread 7) = None
   \<and> thread_worker demo_gnpy get_edfa_config (Some (Fl 1)) 2 (fresh_thread 7) =
     (Return (),
      \<lparr>shared_dict = 7, sim_params_backup = Some 7,
       results_dict = [2 \<mapsto> Result \<lparr>avg_gsnr = Fl (39 / 2), avg_osnr = Fl 31,
                                     gsnr_values = [Fl 19, Fl 20], osnr_values = [Fl 31]\<rparr>],
       trace = [Backup, Reset 7, Acquire, Write 2, Release, Restore 7]\<rparr>)
   \<and> length (filter is_Restore [Backup, Reset 7, Acquire, Write 2, Release, Restore (7::nat)]) = 1"
proof -
  have fresh: "sim_params_backup (fresh_thread 7) = None"
    by (simp add: fresh_thread_def)
  have ends: "Return () \<noteq> (Hang :: unit outcome)"
    by simp
  show ?thesis
    using restore_runs_once_iff_backup_taken[OF fresh demo_thread_worker ends] fresh
      demo_thread_worker
    by simp
qed

text \<open>
  The claim as stated fails where the topology cannot be loaded: the worker ends with an
  error entry and without a restore step.
\<close>

theorem restore_skipped_before_backup_counterexample:
  "thread_worker unloadable_gnpy get_edfa_config None 0 (fresh_thread 5) =
     (Return (),
      \<lparr>shared_dict = 5, sim_params_backup = None,
       results_dict = [0 \<mapsto> Error ''invalid topology''],
       trace = [Acquire, Write 0, Release]\<rparr>)
   \<and> length (filter is_Restore [Acquire, Write 0, Release :: nat event]) = 0"
proof -
  have "bind (load_equipments_and_configs unloadable_gnpy (equipment get_edfa_config))
          (\<lambda>eqpt. load_network unloadable_gnpy (topology get_edfa_config) eqpt)
        = Raise (Exn ''NetworkTopologyError'' ''invalid topology'')"
    by (simp add: unloadable_gnpy_def demo_gnpy_def)
  then show ?thesis
    by (simp add: thread_worker_not_loaded restore_backup_def fresh_thread_def)
qed

section \<open>The entry a thread worker leaves in the registry\<close>

lemma exiting_thread_worker:
  "thread_worker exiting_gnpy get_edfa_config None 0 (fresh_thread 5) =
     (Raise (BaseExn ''SystemExit'' ''1''),
      \<lparr>shared_dict = 5, sim_params_backup = Some 5, results_dict = Map.empty,
       trace = [Backup, Reset 5, Restore 5]\<rparr>)"
proof -
  have l: "load_equipments_and_configs exiting_gnpy (equipment get_edfa_config) = Return ()"
    "load_network exiting_gnpy (topology get_edfa_config) ()
       = Return [Transceiver ''A'', Fiber ''span'', Transceiver ''B'']"
    by (simp_all add: exiting_gnpy_def demo_gnpy_def get_edfa_config_def)
  have "run_single_simulation exiting_gnpy get_edfa_config None 5
          = (Raise (BaseExn ''SystemExit'' ''1''), 1)"
    unfolding run_single_simulation_loaded[OF l]
    by (simp add: exiting_gnpy_def demo_gnpy_def sbind_def lift_def first_two_def getitem_def)
  then show ?thesis
    unfolding thread_worker_loaded[OF l]
    by (simp add: fresh_thread_def)
qed

text \<open>
  C9, as the code has it. A thread worker that ends, with or without an exception, writes
  the registry at most once, only at its own index and only while it holds the lock. When
  the simulation returns, the worker leaves the result mapping (\<open>avg_gsnr\<close>, \<open>avg_osnr\<close>,
  \<open>gsnr_values\<close>, \<open>osnr_values\<close>) at its own index and changes no other entry; when the
  simulation raises an exception \<open>e\<close> that derives from \<open>Exception\<close>, it leaves the mapping
  \<open>{'error': str(e)}\<close> there and changes no other entry. When the simulation raises an
  exception that does not derive from \<open>Exception\<close>, the handler does not catch it: the
  worker ends with that exception and has not written the registry.
\<close>

theorem worker_writes_own_entry_unless_uncaught:
  assumes "thread_worker G config power_dbm index s = (r, s')"
      and "r \<noteq> Hang"
  shows "\<exists>evs. trace s' = trace s @ evs
           \<and> writes_locked False evs
           \<and> (\<forall>i. Write i \<in> set evs \<longrightarrow> i = index)
           \<and> length (filter is_Write evs) \<le> 1
           \<and> (\<forall>res. fst (run_single_simulation G config power_dbm (shared_dict s)) = Return res
                  \<longrightarrow> r = Return ()
                    \<and> results_dict s' = (results_dict s)(index \<mapsto> Result res)
                    \<and> filter is_Write evs = [Write index])
           \<and> (\<forall>exc. fst (run_single_simulation G config power_dbm (shared_dict s)) = Raise exc
                    \<and> is_Exception exc
                  \<longrightarrow> r = Return ()
                    \<and> results_dict s' = (results_dict s)(index \<mapsto> Error (str exc))
                    \<and> filter is_Write evs = [Write index])
           \<and> (\<forall>exc. fst (run_single_simulation G config power_dbm (shared_dict s)) = Raise exc
                    \<and> \<not> is_Exception exc
                  \<longrightarrow> r = Raise exc
                    \<and> results_dict s' = results_dict s
                    \<and> filter is_Write evs = [])"
proof (cases rule: loaders_cases[of G config])
  case (loaded eqpt network)
  show ?thesis
    using assms unfolding thread_worker_loaded[OF loaded]
    by (auto simp: Let_def split: prod.splits outcome.splits if_splits)
next
  case (raised e)
  show ?thesis
    using assms
    unfolding thread_worker_not_loaded[OF raised] worker_try_not_loaded(2)[OF raised]
    by (auto simp: restore_backup_def split: option.splits if_splits)
next
  case hangs
  show ?thesis
    using assms unfolding worker_try_loader_hangs[OF hangs] by simp
qed

theorem worker_writes_own_entry_unless_uncaught_witness:
  "thread_worker demo_gnpy get_edfa_config (Some (Fl 1)) 2 (fresh_thread 7) =
     (Return (),
      \<lparr>shared_dict = 7, sim_params_backup = Some 7,
       results_dict = [2 \<mapsto> Result \<lparr>avg_gsnr = Fl (39 / 2), avg_osnr = Fl 31,
                                     gsnr_values = [Fl 19, Fl 20], osnr_values = [Fl 31]\<rparr>],
       trace = [Backup, Reset 7, Acquire, Write 2, Release, Restore 7]\<rparr>)
   \<and> writes_locked False [Backup, Reset 7, Acquire, Write 2, Release, Restore (7::nat)]
   \<and> filter is_Write [Backup, Reset 7, Acquire, Write 2, Release, Restore (7::nat)] = [Write 2]
   \<and> fst (run_single_simulation demo_gnpy get_edfa_config (Some (Fl 1)) 7)
       = Return \<lparr>avg_gsnr = Fl (39 / 2), avg_osnr = Fl 31,
                  gsnr_values = [Fl 19, Fl 20], osnr_values = [Fl 31]\<rparr>
   \<and> fst (thread_worker exiting_gnpy get_edfa_config None 0 (fresh_thread 5))
       = Raise (BaseExn ''SystemExit'' ''1'')
   \<and> results_dict (snd (thread_worker exiting_gnpy get_edfa_config None 0 (fresh_thread 5)))
       = results_dict (fresh_thread 5)"
proof -
  have ends: "Return () \<noteq> (Hang :: unit outcome)"
    "Raise (BaseExn ''SystemExit'' ''1'') \<noteq> (Hang :: unit outcome)"
    by simp_all
  show ?thesis
    using worker_writes_own_entry_unless_uncaught[OF demo_thread_worker ends(1)]
      worker_writes_own_entry_unless_uncaught[OF exiting_thread_worker ends(2)]
      demo_thread_worker exiting_thread_worker
    by (simp add: demo_run_single_simulation fresh_thread_def)
qed

text \<open>
  The claim as stated fails: with an engine whose path computation raises \<open>SystemExit\<close>, the
  worker ends, after its restore step, and the registry holds no entry at its index.
\<close>

theorem worker_without_entry_counterexample:
  "thread_worker exiting_gnpy get_edfa_config None 0 (fresh_thread 5) =
     (Raise (BaseExn ''SystemExit'' ''1''),
      \<lparr>shared_dict = 5, sim_params_backup = Some 5, results_dict = Map.empty,
       trace = [Backup, Reset 5, Restore 5]\<rparr>)
   \<and> results_dict (snd (thread_worker exiting_gnpy get_edfa_config None 0 (fresh_thread 5))) 0
       = None"
  by (simp add: exiting_thread_worker)

section \<open>The reference runs\<close>

text \<open>
  C3, as the code has it. The reference runs are made in order and nothing catches what a
  run raises. When the engine raises for one Job the exception leaves the loop there: no
  result is recorded for that Job, the Jobs after it are not run, and no list of references
  is produced. The loop returns, with one result per Job, when every run returns.
\<close>

theorem reference_failure_aborts_the_batch:
  "(\<forall>before p after rs c1 e c2.
       ps = before @ p # after
       \<and> references_loop G config before [] c = (Return rs, c1)
       \<and> run_single_simulation G config (Some p) c1 = (Raise e, c2) \<longrightarrow>
       references_loop G config ps [] c = (Raise e, c2))
   \<and> (\<forall>refs c'. references_loop G config ps [] c = (Return refs, c') \<longrightarrow>
         length refs = length ps)
   \<and> ((\<forall>p \<in> set ps. \<forall>c. \<exists>r c'. run_single_simulation G config (Some p) c = (Return r, c')) \<longrightarrow>
         (\<exists>refs c'. references_loop G config ps [] c = (Return refs, c')))"
proof (intro conjI allI impI)
  fix before p after rs c1 e c2
  assume "ps = before @ p # after
       \<and> references_loop G config before [] c = (Return rs, c1)
       \<and> run_single_simulation G config (Some p) c1 = (Raise e, c2)"
  then show "references_loop G config ps [] c = (Raise e, c2)"
    by (simp add: references_loop_append)
next
  fix refs c'
  assume "references_loop G config ps [] c = (Return refs, c')"
  then show "length refs = length ps"
    using references_loop_length by fastforce
next
  assume "\<forall>p \<in> set ps. \<forall>c. \<exists>r c'. run_single_simulation G config (Some p) c = (Return r, c')"
  then show "\<exists>refs c'. references_loop G config ps [] c = (Return refs, c')"
    by (rule references_loop_returns)
qed

theorem reference_failure_aborts_the_batch_witness:
  "powers = [Fl (- 2)] @ Fl (- 1) # [Fl 0, Fl 1]
   \<and> references_loop failing_gnpy get_edfa_config [Fl (- 2)] [] 0
       = (Return [\<lparr>avg_gsnr = Fl (45 / 2), avg_osnr = Fl 28,
                   gsnr_values = [Fl 22, Fl 23], osnr_values = [Fl 28]\<rparr>], 2)
   \<and> run_single_simulation failing_gnpy get_edfa_config (Some (Fl (- 1))) 2
       = (Raise (Exn ''ServiceError'' ''no path''), 0)
   \<and> references_loop failing_gnpy get_edfa_config powers [] 0
       = (Raise (Exn ''ServiceError'' ''no path''), 0)"
proof -
  have a: "powers = [Fl (- 2)] @ Fl (- 1) # [Fl 0, Fl 1]"
    by (simp add: powers_eq)
  have b: "references_loop failing_gnpy get_edfa_config [Fl (- 2)] [] 0
       = (Return [\<lparr>avg_gsnr = Fl (45 / 2), avg_osnr = Fl 28,
                   gsnr_values = [Fl 22, Fl 23], osnr_values = [Fl 28]\<rparr>], 2)"
    by (simp add: failing_run_single_simulation)
  have c: "run_single_simulation failing_gnpy get_edfa_config (Some (Fl (- 1))) 2
       = (Raise (Exn ''ServiceError'' ''no path''), 0)"
    by (simp add: failing_run_single_simulation)
  from reference_failure_aborts_the_batch[of powers failing_gnpy get_edfa_config 0] a b c
  have "references_loop failing_gnpy get_edfa_config powers [] 0
       = (Raise (Exn ''ServiceError'' ''no path''), 0)"
    by blast
  with a b c show ?thesis by simp
qed

text \<open>
  The claim as stated fails: with an engine that raises at the power \<open>-1\<close> the reference
  runs for the four powers end in that exception, not in a list that holds an error entry
  for the second Job and results for the others.
\<close>

theorem reference_failure_not_recorded_counterexample:
  "references_loop failing_gnpy get_edfa_config [Fl (- 2), Fl (- 1), Fl 0, Fl 1] [] 0
     = (Raise (Exn ''ServiceError'' ''no path''), 0)"
  by (simp add: failing_run_single_simulation)

section \<open>No bound on the wait for a batch\<close>

text \<open>
  C6, as the code has it. Neither strategy bounds its wait. \<open>pool.map\<close> and the \<open>join\<close>
  loop return only when every worker has ended: they never return exactly when one worker
  never returns, and a worker never returns exactly when its simulation never returns. What
  \<open>pool.map\<close> returns or raises is what the workers returned or raised, and the \<open>join\<close>
  loop raises nothing: no timeout outcome is made for a worker. A pool gets nothing back
  from a task exactly when the task never returns or ends on an exception that does not
  derive from \<open>Exception\<close>.
\<close>

theorem batch_wait_is_unbounded:
  "(pool_map worker tasks = Hang \<longleftrightarrow> (\<exists>t \<in> set tasks. worker t = Hang))
   \<and> (\<forall>rs. pool_map worker tasks = Return rs \<longrightarrow>
          list_all2 (\<lambda>t r. worker t = Return r) tasks rs)
   \<and> (\<forall>e. pool_map worker tasks = Raise e \<longrightarrow> (\<exists>t \<in> set tasks. worker t = Raise e))
   \<and> (join_all threads = Hang \<longleftrightarrow> Hang \<in> set threads)
   \<and> (\<forall>e. join_all threads \<noteq> Raise e)
   \<and> (process_worker G fresh (config, power_dbm) = Hang
        \<longleftrightarrow> fst (run_single_simulation G config power_dbm fresh) = Hang)
   \<and> (fst (thread_worker G config power_dbm index s) = Hang
        \<longleftrightarrow> fst (run_single_simulation G config power_dbm (shared_dict s)) = Hang)
   \<and> (in_pool worker t = Hang
        \<longleftrightarrow> worker t = Hang \<or> (\<exists>e. worker t = Raise e \<and> \<not> is_Exception e))"
  using pool_map_Hang[of worker tasks] pool_map_ReturnD[of worker tasks]
    pool_map_Raise[of worker tasks] join_all_Hang[of threads] join_all_not_Raise[of threads]
    thread_worker_Hang[of G config power_dbm index s] in_pool_Hang[of worker t]
  by (simp add: process_worker_def)

theorem batch_wait_is_unbounded_witness:
  "process_worker hanging_gnpy 0 (get_edfa_config, Some (Fl 0)) = Hang
   \<and> pool_map (process_worker hanging_gnpy 0) (map (\<lambda>p. (get_edfa_config, Some p)) powers) = Hang
   \<and> join_all [Return (), Hang, Return ()] = Hang"
proof -
  have w: "process_worker hanging_gnpy 0 (get_edfa_config, Some (Fl 0)) = Hang"
    by (simp add: process_worker_def hanging_run_single_simulation)
  have "(get_edfa_config, Some (Fl 0)) \<in> set (map (\<lambda>p. (get_edfa_config, Some p)) powers)"
    by (simp add: powers_eq)
  with w have ex: "\<exists>t \<in> set (map (\<lambda>p. (get_edfa_config, Some p)) powers).
                 process_worker hanging_gnpy 0 t = Hang"
    by blast
  then have "pool_map (process_worker hanging_gnpy 0)
               (map (\<lambda>p. (get_edfa_config, Some p)) powers) = Hang"
    by (rule batch_wait_is_unbounded[THEN conjunct1, THEN iffD2])
  with w show ?thesis by simp
qed

text \<open>
  The claim as stated fails: with an engine that never returns at the power \<open>0\<close>, the
  process test and the thread test never return. No result of the other workers is
  collected and no timeout outcome is reported.
\<close>

theorem hanging_worker_hangs_the_run_counterexample:
  "test_process_pool_isolation hanging_gnpy 0 0 = (Hang, 2)
   \<and> fst (test_deep_copy_thread_local hanging_gnpy (sequential_batch hanging_gnpy) 0) = Hang"
proof -
  have same: "pool_map (process_worker hanging_gnpy 0)
                (replicate NUM_WORKERS (get_edfa_config, None))
     = Return (replicate 4 \<lparr>avg_gsnr = Fl (41 / 2), avg_osnr = Fl 30,
                            gsnr_values = [Fl 20, Fl 21], osnr_values = [Fl 30]\<rparr>)"
    by (simp add: NUM_WORKERS_def numeral_eq_Suc process_worker_def
                  hanging_run_single_simulation demo_run_single_simulation)
  have p: "test_process_pool_isolation hanging_gnpy 0 0 = (Hang, 2)"
    unfolding test_process_pool_isolation_def
    by (simp add: same[THEN pool_map_in_pool_Return[THEN iffD2]] Let_def
                  hanging_run_single_simulation demo_run_single_simulation
                  sbind_def lift_def worker_status_def allclose_def isclose_def rtol_default_def
                  powers_eq process_worker_def in_pool_def numeral_eq_Suc)
  have l: "load_equipments_and_configs hanging_gnpy (equipment get_edfa_config) = Return ()"
    "load_network hanging_gnpy (topology get_edfa_config) ()
       = Return [Transceiver ''A'', Fiber ''span'', Transceiver ''B'']"
    by (simp_all add: hanging_gnpy_def demo_gnpy_def get_edfa_config_def)
  have t: "fst (test_deep_copy_thread_local hanging_gnpy (sequential_batch hanging_gnpy) 0) = Hang"
    unfolding test_deep_copy_thread_local_def sequential_batch_def
    by (simp add: range_workers powers_eq Let_def sbind_def lift_def thread_worker_loaded[OF l]
                  hanging_run_single_simulation demo_run_single_simulation
                  allclose_def isclose_def rtol_default_def)
  from p t show ?thesis by simp
qed

section \<open>The verdict of a strategy\<close>

text \<open>
  C4, as the code has it. When the runs and the comparisons of a test return, the verdict
  of the process test is the conjunction of the status \<open>PASS\<close> of every worker of the
  same-parameters check (GSNR and OSNR series against the reference) and of the match of the
  GSNR series of every worker of the differing-parameters check with its own reference.
  The verdict of the thread test is the conjunction, over the threads of both batches, of
  the presence of a result and the match of its GSNR series. The test \<open>all_same\<close> on the
  scalar metrics of the differing-parameters results does not enter either verdict. (A
  pool gets a result back from a task exactly when the worker returns it, so the results of
  a pool are stated on the workers.)
\<close>

theorem verdict_is_conjunction_of_series_matches:
  "(\<forall>reference c1 results results_diff references_diff c2.
      run_single_simulation G get_edfa_config None c = (Return reference, c1)
      \<and> pool_map (process_worker G fresh) (replicate NUM_WORKERS (get_edfa_config, None))
           = Return results
      \<and> pool_map (process_worker G fresh) (map (\<lambda>p. (get_edfa_config, Some p)) powers)
           = Return results_diff
      \<and> references_loop G get_edfa_config powers [] c1 = (Return references_diff, c2)
      \<and> (\<forall>r \<in> set results. \<exists>status. worker_status reference r = Return status)
      \<and> (\<forall>(r, f) \<in> set (zip results_diff references_diff).
             \<exists>b. allclose (gsnr_values r) (gsnr_values f) (1 / 10 ^ 6) = Return b)
      \<longrightarrow>
      test_process_pool_isolation G fresh c =
        (Return ((\<forall>r \<in> set results. worker_status reference r = Return ''PASS'')
                 \<and> (\<forall>(r, f) \<in> set (zip results_diff references_diff).
                       allclose (gsnr_values r) (gsnr_values f) (1 / 10 ^ 6) = Return True)),
         c2))
   \<and> (\<forall>reference c1 registry c2 registry_diff c3 references_diff c4.
      run_single_simulation G get_edfa_config None c = (Return reference, c1)
      \<and> batch get_edfa_config (map (\<lambda>i. (i, None)) [0..<NUM_WORKERS]) c1
           = (Return registry, c2)
      \<and> batch get_edfa_config (zip [0..<length powers] (map Some powers)) c2
           = (Return registry_diff, c3)
      \<and> references_loop G get_edfa_config powers [] c3 = (Return references_diff, c4)
      \<and> (\<forall>i < NUM_WORKERS. \<forall>r. registry i = Some (Result r) \<longrightarrow>
             (\<exists>b. allclose (gsnr_values r) (gsnr_values reference) (1 / 10 ^ 4) = Return b))
      \<and> (\<forall>i < NUM_WORKERS. \<forall>r. registry_diff i = Some (Result r) \<longrightarrow>
             (\<exists>b. allclose (gsnr_values r) (gsnr_values (references_diff ! i)) (1 / 10 ^ 4)
                     = Return b))
      \<longrightarrow>
      test_deep_copy_thread_local G batch c =
        (Return ((\<forall>i < NUM_WORKERS. \<exists>r. registry i = Some (Result r)
                    \<and> allclose (gsnr_values r) (gsnr_values reference) (1 / 10 ^ 4)
                        = Return True)
                 \<and> (\<forall>i < NUM_WORKERS. \<exists>r. registry_diff i = Some (Result r)
                    \<and> allclose (gsnr_values r) (gsnr_values (references_diff ! i))
                         (1 / 10 ^ 4) = Return True)),
         c4))"
proof (intro conjI allI impI)
  fix reference c1 results results_diff references_diff c2
  assume a: "run_single_simulation G get_edfa_config None c = (Return reference, c1)
      \<and> pool_map (process_worker G fresh) (replicate NUM_WORKERS (get_edfa_config, None))
           = Return results
      \<and> pool_map (process_worker G fresh) (map (\<lambda>p. (get_edfa_config, Some p)) powers)
           = Return results_diff
      \<and> references_loop G get_edfa_config powers [] c1 = (Return references_diff, c2)
      \<and> (\<forall>r \<in> set results. \<exists>status. worker_status reference r = Return status)
      \<and> (\<forall>(r, f) \<in> set (zip results_diff references_diff).
             \<exists>b. allclose (gsnr_values r) (gsnr_values f) (1 / 10 ^ 6) = Return b)"
  show "test_process_pool_isolation G fresh c =
        (Return ((\<forall>r \<in> set results. worker_status reference r = Return ''PASS'')
                 \<and> (\<forall>(r, f) \<in> set (zip results_diff references_diff).
                       allclose (gsnr_values r) (gsnr_values f) (1 / 10 ^ 6) = Return True)),
         c2)"
    by (rule process_verdict[of G c reference c1 fresh results results_diff references_diff c2])
       (use a in blast)+
next
  fix reference c1 registry c2 registry_diff c3 references_diff c4
  assume a: "run_single_simulation G get_edfa_config None c = (Return reference, c1)
      \<and> batch get_edfa_config (map (\<lambda>i. (i, None)) [0..<NUM_WORKERS]) c1
           = (Return registry, c2)
      \<and> batch get_edfa_config (zip [0..<length powers] (map Some powers)) c2
           = (Return registry_diff, c3)
      \<and> references_loop G get_edfa_config powers [] c3 = (Return references_diff, c4)
      \<and> (\<forall>i < NUM_WORKERS. \<forall>r. registry i = Some (Result r) \<longrightarrow>
             (\<exists>b. allclose (gsnr_values r) (gsnr_values reference) (1 / 10 ^ 4) = Return b))
      \<and> (\<forall>i < NUM_WORKERS. \<forall>r. registry_diff i = Some (Result r) \<longrightarrow>
             (\<exists>b. allclose (gsnr_values r) (gsnr_values (references_diff ! i)) (1 / 10 ^ 4)
                     = Return b))"
  show "test_deep_copy_thread_local G batch c =
        (Return ((\<forall>i < NUM_WORKERS. \<exists>r. registry i = Some (Result r)
                    \<and> allclose (gsnr_values r) (gsnr_values reference) (1 / 10 ^ 4)
                        = Return True)
                 \<and> (\<forall>i < NUM_WORKERS. \<exists>r. registry_diff i = Some (Result r)
                    \<and> allclose (gsnr_values r) (gsnr_values (references_diff ! i))
                         (1 / 10 ^ 4) = Return True)),
         c4)"
    by (rule thread_verdict[of G c reference c1 batch registry c2 registry_diff c3
               references_diff c4])
       (use a in blast)+
qed

theorem verdict_is_conjunction_of_series_matches_witness:
  "run_single_simulation demo_gnpy get_edfa_config None 0 = (Return (demo_result 0), 2)
   \<and> pool_map (process_worker demo_gnpy 0) (replicate NUM_WORKERS (get_edfa_config, None))
        = Return [demo_result 0, demo_result 0, demo_result 0, demo_result 0]
   \<and> pool_map (process_worker demo_gnpy 0) (map (\<lambda>p. (get_edfa_config, Some p)) powers)
        = Return [demo_result (- 2), demo_result (- 1), demo_result 0, demo_result 1]
   \<and> references_loop demo_gnpy get_edfa_config powers [] 2
        = (Return [demo_result (- 2), demo_result (- 1), demo_result 0, demo_result 1], 2)
   \<and> test_process_pool_isolation demo_gnpy 0 0 = (Return True, 2)
   \<and> test_deep_copy_thread_local demo_gnpy (sequential_batch demo_gnpy) 0 = (Return True, 2)"
proof -
  let ?refs = "[demo_result (- 2), demo_result (- 1), demo_result 0, demo_result 1]"
  let ?same = "[demo_result 0, demo_result 0, demo_result 0, demo_result 0]"
  let ?registry = "[0 \<mapsto> Result (demo_result 0), 1 \<mapsto> Result (demo_result 0),
                    2 \<mapsto> Result (demo_result 0), 3 \<mapsto> Result (demo_result 0)]"
  let ?registry_diff = "[0 \<mapsto> Result (demo_result (- 2)), 1 \<mapsto> Result (demo_result (- 1)),
                         2 \<mapsto> Result (demo_result 0), 3 \<mapsto> Result (demo_result 1)]"
  note T = verdict_is_conjunction_of_series_matches[of demo_gnpy 0 0 "sequential_batch demo_gnpy"]
  have process: "run_single_simulation demo_gnpy get_edfa_config None 0 = (Return (demo_result 0), 2)
      \<and> pool_map (process_worker demo_gnpy 0) (replicate NUM_WORKERS (get_edfa_config, None))
           = Return ?same
      \<and> pool_map (process_worker demo_gnpy 0) (map (\<lambda>p. (get_edfa_config, Some p)) powers)
           = Return ?refs
      \<and> references_loop demo_gnpy get_edfa_config powers [] 2 = (Return ?refs, 2)
      \<and> (\<forall>r \<in> set ?same. \<exists>status. worker_status (demo_result 0) r = Return status)
      \<and> (\<forall>(r, f) \<in> set (zip ?refs ?refs).
             \<exists>b. allclose (gsnr_values r) (gsnr_values f) (1 / 10 ^ 6) = Return b)"
    by (auto simp: demo_run demo_pools demo_references worker_status_demo_result
                   allclose_demo_result)
  have p: "test_process_pool_isolation demo_gnpy 0 0 = (Return True, 2)"
    using T[THEN conjunct1, rule_format, OF process]
    by (simp add: worker_status_demo_result allclose_demo_result)
  have threads: "run_single_simulation demo_gnpy get_edfa_config None 0 = (Return (demo_result 0), 2)
      \<and> sequential_batch demo_gnpy get_edfa_config (map (\<lambda>i. (i, None)) [0..<NUM_WORKERS]) 2
           = (Return ?registry, 2)
      \<and> sequential_batch demo_gnpy get_edfa_config (zip [0..<length powers] (map Some powers)) 2
           = (Return ?registry_diff, 2)
      \<and> references_loop demo_gnpy get_edfa_config powers [] 2 = (Return ?refs, 2)
      \<and> (\<forall>i < NUM_WORKERS. \<forall>r. ?registry i = Some (Result r) \<longrightarrow>
             (\<exists>b. allclose (gsnr_values r) (gsnr_values (demo_result 0)) (1 / 10 ^ 4) = Return b))
      \<and> (\<forall>i < NUM_WORKERS. \<forall>r. ?registry_diff i = Some (Result r) \<longrightarrow>
             (\<exists>b. allclose (gsnr_values r) (gsnr_values (?refs ! i)) (1 / 10 ^ 4) = Return b))"
    by (auto simp: demo_run demo_batches demo_references allclose_demo_result
             split: if_splits)
  have t: "test_deep_copy_thread_local demo_gnpy (sequential_batch demo_gnpy) 0 = (Return True, 2)"
    using T[THEN conjunct2, rule_format, OF threads]
    by (auto simp: NUM_WORKERS_def allclose_demo_result numeral_eq_Suc less_Suc_eq)
  from p t show ?thesis
    by (simp add: demo_run demo_pools demo_references)
qed

text \<open>
  The claim as stated fails: with an engine that ignores the power, the four results of
  the differing-parameters check are equal although the four powers are distinct, and the
  verdict of the process test is \<open>True\<close>.
\<close>

theorem equal_results_for_distinct_powers_pass_counterexample:
  "distinct powers
   \<and> pool_map (process_worker blind_gnpy 0) (map (\<lambda>p. (get_edfa_config, Some p)) powers)
        = Return [demo_result 0, demo_result 0, demo_result 0, demo_result 0]
   \<and> all_same [demo_result 0, demo_result 0, demo_result 0, demo_result 0]
   \<and> test_process_pool_isolation blind_gnpy 0 0 = (Return True, 2)"
proof -
  have "test_process_pool_isolation blind_gnpy 0 0 = (Return True, 2)"
    unfolding test_process_pool_isolation_def Let_def
    by (simp add: sbind_def lift_def blind_run blind_pools[THEN pool_map_in_pool_Return[THEN iffD2]]
                  blind_references worker_status_demo_result allclose_demo_result)
  moreover have "distinct powers"
    by (simp add: powers_eq)
  moreover have "all_same [demo_result 0, demo_result 0, demo_result 0, demo_result 0]"
    by (simp add: all_same_def demo_result_def)
  ultimately show ?thesis
    by (simp add: blind_pools)
qed

section \<open>What the verification of one Job compares\<close>

text \<open>
  C1, as the code has it. For series of equal lengths, the process test reports \<open>PASS\<close> for
  a worker of the same-parameters check exactly when every element of its GSNR series and
  of its OSNR series is close to the element of the reference at the same place, where
  \<open>x\<close> is close to \<open>y\<close> when \<open>|x - y| \<le> 1e-6 + 1e-5 * |y|\<close> and neither is NaN: the
  tolerance is \<open>numpy.allclose\<close>'s, an absolute part and a part relative to the reference.
  The scalar metrics \<open>avg_gsnr\<close> and \<open>avg_osnr\<close> are not compared. The
  differing-parameters check compares the GSNR series only, and the checks of the thread
  test compare the GSNR series only, with the absolute part \<open>1e-4\<close>.
\<close>

theorem status_compares_series_with_allclose:
  assumes "length (gsnr_values result) = length (gsnr_values reference)"
      and "length (osnr_values result) = length (osnr_values reference)"
  shows "worker_status reference result =
           Return (if list_all2 (isclose (1 / 10 ^ 6)) (gsnr_values result) (gsnr_values reference)
                      \<and> list_all2 (isclose (1 / 10 ^ 6)) (osnr_values result)
                            (osnr_values reference)
                   then ''PASS'' else ''FAIL'')
       \<and> (\<forall>atol x y. isclose atol (Fl x) (Fl y) \<longleftrightarrow> \<bar>x - y\<bar> \<le> atol + \<bar>y\<bar> / 10 ^ 5)
       \<and> (\<forall>atol a. \<not> isclose atol NaN a \<and> \<not> isclose atol a NaN)
       \<and> (\<forall>a b a' b'. worker_status (reference\<lparr>avg_gsnr := a, avg_osnr := b\<rparr>)
                          (result\<lparr>avg_gsnr := a', avg_osnr := b'\<rparr>)
                        = worker_status reference result)
       \<and> diff_match_loop [(result, reference)] True =
           Return (list_all2 (isclose (1 / 10 ^ 6)) (gsnr_values result) (gsnr_values reference))
       \<and> same_param_loop reference [index \<mapsto> Result result] [index] True =
           Return (list_all2 (isclose (1 / 10 ^ 4)) (gsnr_values result) (gsnr_values reference))
       \<and> diff_param_loop [reference] [0 \<mapsto> Result result] [0] True =
           Return (list_all2 (isclose (1 / 10 ^ 4)) (gsnr_values result) (gsnr_values reference))"
proof (intro conjI allI)
  show "worker_status reference result =
           Return (if list_all2 (isclose (1 / 10 ^ 6)) (gsnr_values result) (gsnr_values reference)
                      \<and> list_all2 (isclose (1 / 10 ^ 6)) (osnr_values result)
                            (osnr_values reference)
                   then ''PASS'' else ''FAIL'')"
    by (rule worker_status_same_length[OF assms])
  show "isclose atol (Fl x) (Fl y) \<longleftrightarrow> \<bar>x - y\<bar> \<le> atol + \<bar>y\<bar> / 10 ^ 5" for atol x y
    by (rule isclose_Fl)
  show "\<not> isclose atol NaN a" "\<not> isclose atol a NaN" for atol a
    by (rule isclose_NaN)+
  show "worker_status (reference\<lparr>avg_gsnr := a, avg_osnr := b\<rparr>)
          (result\<lparr>avg_gsnr := a', avg_osnr := b'\<rparr>) = worker_status reference result"
    for a b a' b'
    by (simp add: worker_status_def)
  show "diff_match_loop [(result, reference)] True =
           Return (list_all2 (isclose (1 / 10 ^ 6)) (gsnr_values result) (gsnr_values reference))"
    by (simp add: allclose_same_length[OF assms(1)])
  show "same_param_loop reference [index \<mapsto> Result result] [index] True =
           Return (list_all2 (isclose (1 / 10 ^ 4)) (gsnr_values result) (gsnr_values reference))"
    by (simp add: allclose_same_length[OF assms(1)])
  show "diff_param_loop [reference] [0 \<mapsto> Result result] [0] True =
           Return (list_all2 (isclose (1 / 10 ^ 4)) (gsnr_values result) (gsnr_values reference))"
    by (simp add: allclose_same_length[OF assms(1)] getitem_def)
qed

theorem status_compares_series_with_allclose_witness:
  "length (gsnr_values (demo_result 1)) = length (gsnr_values (demo_result 0))
   \<and> length (osnr_values (demo_result 1)) = length (osnr_values (demo_result 0))
   \<and> worker_status (demo_result 0) (demo_result 1) = Return ''FAIL''
   \<and> worker_status (demo_result 0) (demo_result 0) = Return ''PASS''"
proof -
  have l: "length (gsnr_values (demo_result p)) = length (gsnr_values (demo_result 0))"
    "length (osnr_values (demo_result p)) = length (osnr_values (demo_result 0))" for p
    by (simp_all add: demo_result_def)
  have "worker_status (demo_result 0) (demo_result 1) = Return ''FAIL''"
    using status_compares_series_with_allclose[OF l, of 1 0, THEN conjunct1]
    by (simp add: demo_result_def isclose_Fl)
  moreover have "worker_status (demo_result 0) (demo_result 0) = Return ''PASS''"
    using status_compares_series_with_allclose[OF l, of 0 0, THEN conjunct1]
    by (simp add: demo_result_def isclose_Fl)
  ultimately show ?thesis using l by simp
qed

text \<open>
  The claim as stated fails. A result whose GSNR and mean GSNR are \<open>5e-4\<close> above a reference
  of \<open>100\<close> is reported \<open>PASS\<close>, although the deviation exceeds \<open>1e-6\<close>; the same deviation
  from a reference of \<open>0\<close> is reported \<open>FAIL\<close>. No fixed absolute tolerance separates the
  two.
\<close>

theorem status_not_an_absolute_tolerance_counterexample:
  "worker_status (result_of \<lparr>snr = [Fl 100], osnr_ase = [Fl 30]\<rparr>)
                 (result_of \<lparr>snr = [Fl (100 + 5 / 10 ^ 4)], osnr_ase = [Fl 30]\<rparr>)
     = Return ''PASS''
   \<and> worker_status (result_of \<lparr>snr = [Fl 0], osnr_ase = [Fl 30]\<rparr>)
                   (result_of \<lparr>snr = [Fl (0 + 5 / 10 ^ 4)], osnr_ase = [Fl 30]\<rparr>)
     = Return ''FAIL''
   \<and> avg_gsnr (result_of \<lparr>snr = [Fl 100], osnr_ase = [Fl 30]\<rparr>) = Fl 100
   \<and> avg_gsnr (result_of \<lparr>snr = [Fl (100 + 5 / 10 ^ 4)], osnr_ase = [Fl 30]\<rparr>)
       = Fl (100 + 5 / 10 ^ 4)
   \<and> \<not> \<bar>(100 + 5 / 10 ^ 4) - 100\<bar> \<le> (1 / 10 ^ 6 :: real)
   \<and> \<bar>(100 + 5 / 10 ^ 4) - 100\<bar> = \<bar>(0 + 5 / 10 ^ 4) - (0 :: real)\<bar>"
  by (simp add: worker_status_def result_of_def np_mean_def allclose_def isclose_Fl)

section \<open>One Job without a power, under both strategies\<close>

text \<open>
  C5, as the code has it. Let \<open>SimParams.set_params({})\<close> replace the shared dictionary
  wholesale, and let the reference run of a Job without a power return a result whose
  series hold no NaN. Then a process worker returns that same result from any fresh
  dictionary and the process check passes it; a batch of one thread leaves that same result
  in the registry, the shared dictionary as it was, and the thread check passes it. The two
  verifications do not use the same tolerance: for series of equal lengths the process
  check is \<open>numpy.allclose\<close> with \<open>atol = 1e-6\<close> on the GSNR and the OSNR series, the thread
  check is \<open>numpy.allclose\<close> with \<open>atol = 1e-4\<close> on the GSNR series.
\<close>

theorem single_job_matches_reference_with_each_tolerance:
  assumes "\<forall>c c'. set_params G (JObj []) c = set_params G (JObj []) c'"
      and "run_single_simulation G config None c0 = (Return reference, c1)"
      and "\<forall>x \<in> set (gsnr_values reference) \<union> set (osnr_values reference). \<not> is_nan x"
  shows "process_worker G fresh (config, None) = Return reference
       \<and> all_match_loop reference [reference] True = Return True
       \<and> sequential_batch G config [(index, None)] c1 = (Return [index \<mapsto> Result reference], c1)
       \<and> same_param_loop reference [index \<mapsto> Result reference] [index] True = Return True
       \<and> (\<forall>r :: sim_result. length (gsnr_values r) = length (gsnr_values reference)
               \<and> length (osnr_values r) = length (osnr_values reference) \<longrightarrow>
             all_match_loop reference [r] True =
               Return (list_all2 (isclose (1 / 10 ^ 6)) (gsnr_values r) (gsnr_values reference)
                       \<and> list_all2 (isclose (1 / 10 ^ 6)) (osnr_values r)
                             (osnr_values reference))
             \<and> same_param_loop reference [index \<mapsto> Result r] [index] True =
               Return (list_all2 (isclose (1 / 10 ^ 4)) (gsnr_values r)
                         (gsnr_values reference)))"
proof (intro conjI allI impI)
  have ref: "fst (run_single_simulation G config None c) = Return reference" for c
    using run_single_simulation_any_store[OF assms(1), of config None c c0] assms(2)
    by simp
  show "process_worker G fresh (config, None) = Return reference"
    by (simp add: process_worker_def ref)
  have g: "allclose (gsnr_values reference) (gsnr_values reference) atol = Return True"
    and o: "allclose (osnr_values reference) (osnr_values reference) atol = Return True"
    if "0 \<le> atol" for atol
    using assms(3) that by (simp_all add: allclose_refl)
  show "all_match_loop reference [reference] True = Return True"
    by (simp add: worker_status_def g o)
  show "sequential_batch G config [(index, None)] c1 = (Return [index \<mapsto> Result reference], c1)"
    by (rule sequential_batch_single[OF ref])
  show "same_param_loop reference [index \<mapsto> Result reference] [index] True = Return True"
    by (simp add: g)
next
  fix r :: sim_result
  assume len: "length (gsnr_values r) = length (gsnr_values reference)
               \<and> length (osnr_values r) = length (osnr_values reference)"
  then show "all_match_loop reference [r] True =
               Return (list_all2 (isclose (1 / 10 ^ 6)) (gsnr_values r) (gsnr_values reference)
                       \<and> list_all2 (isclose (1 / 10 ^ 6)) (osnr_values r)
                             (osnr_values reference))"
    by (simp add: worker_status_same_length)
  from len show "same_param_loop reference [index \<mapsto> Result r] [index] True =
               Return (list_all2 (isclose (1 / 10 ^ 4)) (gsnr_values r)
                         (gsnr_values reference))"
    by (simp add: allclose_same_length)
qed

theorem single_job_matches_reference_with_each_tolerance_witness:
  "(\<forall>c c'. set_params demo_gnpy (JObj []) c = set_params demo_gnpy (JObj []) c')
   \<and> run_single_simulation demo_gnpy get_edfa_config None 7 = (Return (demo_result 0), 2)
   \<and> process_worker demo_gnpy 5 (get_edfa_config, None) = Return (demo_result 0)
   \<and> sequential_batch demo_gnpy get_edfa_config [(0, None)] 2
        = (Return [0 \<mapsto> Result (demo_result 0)], 2)"
proof -
  have w: "\<forall>c c'. set_params demo_gnpy (JObj []) c = set_params demo_gnpy (JObj []) c'"
    by (simp add: demo_gnpy_def)
  have r: "run_single_simulation demo_gnpy get_edfa_config None 7 = (Return (demo_result 0), 2)"
    by (rule demo_run)
  have f: "\<forall>x \<in> set (gsnr_values (demo_result 0)) \<union> set (osnr_values (demo_result 0)).
             \<not> is_nan x"
    by (simp add: demo_result_def)
  from single_job_matches_reference_with_each_tolerance[OF w r f, of 5 0] w r
  show ?thesis by simp
qed

text \<open>
  The claim as stated fails. A result whose GSNR and mean GSNR are \<open>5e-5\<close> away from the
  reference, more than \<open>1e-6\<close>, passes the thread check and fails the process check.
\<close>

theorem thread_check_tolerance_counterexample:
  "same_param_loop (result_of \<lparr>snr = [Fl 0], osnr_ase = [Fl 30]\<rparr>)
     [0 \<mapsto> Result (result_of \<lparr>snr = [Fl (5 / 10 ^ 5)], osnr_ase = [Fl 30]\<rparr>)] [0] True
     = Return True
   \<and> all_match_loop (result_of \<lparr>snr = [Fl 0], osnr_ase = [Fl 30]\<rparr>)
       [result_of \<lparr>snr = [Fl (5 / 10 ^ 5)], osnr_ase = [Fl 30]\<rparr>] True
     = Return False
   \<and> avg_gsnr (result_of \<lparr>snr = [Fl 0], osnr_ase = [Fl 30]\<rparr>) = Fl 0
   \<and> avg_gsnr (result_of \<lparr>snr = [Fl (5 / 10 ^ 5)], osnr_ase = [Fl 30]\<rparr>) = Fl (5 / 10 ^ 5)
   \<and> \<not> \<bar>5 / 10 ^ 5 - 0\<bar> \<le> (1 / 10 ^ 6 :: real)"
  by (simp add: worker_status_def result_of_def np_mean_def allclose_def isclose_Fl)

end
